theory Spec2Isabelle
  imports Complex_Main "HOL-Library.AList" "HOL-Library.Multiset" "HOL-Library.Word"
begin

section \<open>JavaScript values and strings\<close>

text \<open>
  The values that flow through the agent core: JSON-like data, and \<open>Error\<close> instances.
  An \<open>Error\<close> instance carries its \<open>name\<close>, its \<open>message\<close> and the optional
  \<open>status\<close> property that provider SDKs attach (\<open>None\<close> when the property is absent).
  Numbers are restricted to the integers from \<open>-2^53\<close> to \<open>2^53 - 1\<close>, held as the signed
  value of a 54-bit word: each is a number that JavaScript represents exactly and prints
  in decimal. An object is a plain object: its prototype is \<open>Object.prototype\<close> and its
  properties are data, never functions. A thrown value is any \<open>jsval\<close>; a computation
  that may throw returns \<open>jsval + 'a\<close> with \<open>Inl\<close> the thrown value.
\<close>

datatype jsval =
    JUndefined
  | JNull
  | JBool bool
  | JNum "54 word"
  | JStr string
  | JArr "jsval list"
  | JObj "(string \<times> jsval) list"
  | JError (ename: string) (emessage: string) (estatus: "jsval option")

text \<open>\<open>error instanceof Error\<close>.\<close>

fun instanceofError :: "jsval \<Rightarrow> bool" where
  "instanceofError (JError nm msg st) = True"
| "instanceofError v = False"

text \<open>
  Strings are lists of characters with codes 0 to 255, read as the Latin-1 range of
  Unicode. \<open>String.prototype.includes\<close> (here \<open>str_includes\<close>) is the substring test.
\<close>

fun startsWith :: "string \<Rightarrow> string \<Rightarrow> bool" where
  "startsWith s [] = True"
| "startsWith [] (c # cs) = False"
| "startsWith (x # xs) (c # cs) = (x = c \<and> startsWith xs cs)"

fun str_includes :: "string \<Rightarrow> string \<Rightarrow> bool" where
  "str_includes [] sub = (sub = [])"
| "str_includes (x # xs) sub = (startsWith (x # xs) sub \<or> str_includes xs sub)"

text \<open>
  \<open>toLowerCase\<close>: the letters A to Z and the Latin-1 capitals (codes 192 to 222 except the
  multiplication sign 215) move up by 32; every other character of the range is unchanged.
\<close>

definition toLowerChar :: "char \<Rightarrow> char" where
  "toLowerChar c =
     (let n = (of_char c :: nat)
      in if (65 \<le> n \<and> n \<le> 90) \<or> (192 \<le> n \<and> n \<le> 222 \<and> n \<noteq> 215)
         then char_of (n + 32) else c)"

definition toLowerCase :: "string \<Rightarrow> string" where
  "toLowerCase s = map toLowerChar s"

text \<open>
  \<open>trim\<close> removes white space and line terminators at both ends: tab, line feed,
  vertical tab, form feed, carriage return, space and the no-break space (code 160).
\<close>

definition isWhiteSpace :: "char \<Rightarrow> bool" where
  "isWhiteSpace c = ((of_char c :: nat) \<in> {9, 10, 11, 12, 13, 32, 160})"

definition trim :: "string \<Rightarrow> string" where
  "trim s = rev (dropWhile isWhiteSpace (rev (dropWhile isWhiteSpace s)))"

text \<open>\<open>Array.prototype.join\<close> on strings.\<close>

fun join :: "string \<Rightarrow> string list \<Rightarrow> string" where
  "join sep [] = []"
| "join sep [x] = x"
| "join sep (x # y # ys) = x @ sep @ join sep (y # ys)"

text \<open>Decimal digits of a natural number, and \<open>String(n)\<close> for an integer.\<close>

function digits :: "nat \<Rightarrow> string" where
  "digits n = (if n < 10 then [char_of (48 + n)]
               else digits (n div 10) @ [char_of (48 + n mod 10)])"
  by pat_completeness auto
termination
  by (relation "measure id") auto

definition showInt :: "int \<Rightarrow> string" where
  "showInt i = (if i < 0 then CHR ''-'' # digits (nat (- i)) else digits (nat i))"

definition TypeError :: "string \<Rightarrow> jsval" where
  "TypeError message = JError ''TypeError'' message None"

text \<open>
  \<open>String(value)\<close>, which may throw. An array joins the strings of its elements with a
  comma, \<open>null\<close> and \<open>undefined\<close> elements giving the empty string. An object without an
  own \<open>toString\<close> property inherits the method of \<open>Object.prototype\<close> and gives
  \<open>[object Object]\<close>; an object with an own \<open>toString\<close> property, which is data and so
  not callable, has no conversion to a primitive value, and \<open>String\<close> throws a
  \<open>TypeError\<close>. An \<open>Error\<close> gives \<open>name: message\<close>.
\<close>

fun toString :: "jsval \<Rightarrow> jsval + string"
  and toStrings :: "jsval list \<Rightarrow> jsval + string list"
where
  "toString JUndefined = Inr ''undefined''"
| "toString JNull = Inr ''null''"
| "toString (JBool b) = Inr (if b then ''true'' else ''false'')"
| "toString (JNum n) = Inr (showInt (sint n))"
| "toString (JStr s) = Inr s"
| "toString (JArr xs) =
     (case toStrings xs of Inl e \<Rightarrow> Inl e | Inr ss \<Rightarrow> Inr (join '','' ss))"
| "toString (JObj kvs) =
     (if map_of kvs ''toString'' \<noteq> None
      then Inl (TypeError ''Cannot convert object to primitive value'')
      else Inr ''[object Object]'')"
| "toString (JError nm msg st) =
     Inr (if nm = [] then msg else if msg = [] then nm else nm @ '': '' @ msg)"
| "toStrings [] = Inr []"
| "toStrings (x # xs) =
     (case (if x = JUndefined \<or> x = JNull then Inr [] else toString x) of
        Inl e \<Rightarrow> Inl e
      | Inr s \<Rightarrow> (case toStrings xs of Inl e \<Rightarrow> Inl e | Inr ss \<Rightarrow> Inr (s # ss)))"

text \<open>Truthiness, as tested by \<open>if (v)\<close> and \<open>!v\<close>.\<close>

fun truthy :: "jsval \<Rightarrow> bool" where
  "truthy JUndefined = False"
| "truthy JNull = False"
| "truthy (JBool b) = b"
| "truthy (JNum n) = (n \<noteq> 0)"
| "truthy (JStr s) = (s \<noteq> [])"
| "truthy v = True"

section \<open>Error taxonomy (agents/errors.ts)\<close>

fun isAuthenticationError :: "jsval \<Rightarrow> bool" where
  "isAuthenticationError (JError nm msg st) =
     (let errorMessage = msg
      in if nm = ''AuthenticationError'' then True
         else if st = Some (JNum 401) then True
         else str_includes (toLowerCase errorMessage) ''authentication''
              \<or> str_includes errorMessage '' 401''
              \<or> str_includes (toLowerCase errorMessage) ''api key'')"
| "isAuthenticationError v = False"

fun isForbiddenError :: "jsval \<Rightarrow> bool" where
  "isForbiddenError (JError nm msg st) =
     (if st = Some (JNum 403) then True
      else str_includes msg '' 403'' \<or> str_includes (toLowerCase msg) ''forbidden'')"
| "isForbiddenError v = False"

fun isBadRequestError :: "jsval \<Rightarrow> bool" where
  "isBadRequestError (JError nm msg st) =
     (let errorMessage = msg
      in if nm = ''BadRequestError'' then True
         else if st = Some (JNum 400) then True
         else str_includes errorMessage '' 400''
              \<or> str_includes (toLowerCase errorMessage) ''badrequest''
              \<or> str_includes errorMessage ''Invalid parameter''
              \<or> (str_includes errorMessage ''response_format''
                  \<and> str_includes errorMessage ''json_schema''
                  \<and> str_includes errorMessage ''not supported''))"
| "isBadRequestError v = False"

fun isAbortedError :: "jsval \<Rightarrow> bool" where
  "isAbortedError (JError nm msg st) = (nm = ''AbortError'' \<or> str_includes msg ''Aborted'')"
| "isAbortedError v = False"

text \<open>
  \<open>error instanceof Error ? error.message : String(error)\<close>, the text that
  \<open>isExtensionConflictError\<close> and the \<open>catch\<close> block of \<open>invoke\<close> inspect. The
  conversion of a value that is not an \<open>Error\<close> may throw.
\<close>

definition messageOrString :: "jsval \<Rightarrow> jsval + string" where
  "messageOrString error = (if instanceofError error then Inr (emessage error) else toString error)"

text \<open>
  \<open>isExtensionConflictError\<close> has no guard against input that is not an \<open>Error\<close>; it
  returns a boolean or lets the exception of the string conversion escape.
\<close>

definition isExtensionConflictError :: "jsval \<Rightarrow> jsval + bool" where
  "isExtensionConflictError error =
     (case messageOrString error of
        Inl e \<Rightarrow> Inl e
      | Inr text \<Rightarrow>
          (let errorMessage = toLowerCase text
           in Inr (str_includes errorMessage ''cannot access a chrome-extension''
                   \<and> str_includes errorMessage ''of different extension'')))"

text \<open>The error classes of this layer; each constructor sets \<open>name\<close> explicitly.\<close>

definition InvalidInputError :: "string \<Rightarrow> jsval" where
  "InvalidInputError message = JError ''InvalidInputError'' message None"

definition ResponseParseError :: "string \<Rightarrow> jsval" where
  "ResponseParseError message = JError ''ResponseParseError'' message None"

definition Error :: "string \<Rightarrow> jsval" where
  "Error message = JError ''Error'' message None"

section \<open>Schemas (the fragment of the zod library the core relies on)\<close>

text \<open>
  A schema is a tree of validators. \<open>ZodEffects\<close> is a schema followed by a transform,
  which may throw (\<open>Inl\<close>). \<open>ZodDescribe s d\<close> is the schema \<open>s\<close> carrying the description
  \<open>d\<close>: \<open>describe\<close> returns a copy of the same class, so the node is transparent to
  parsing and to \<open>instanceof\<close>.
\<close>

datatype zod =
    ZodString
  | ZodNumber
  | ZodBoolean
  | ZodObject "(string \<times> zod) list"
  | ZodNullable zod
  | ZodOptional zod
  | ZodUnion "zod list"
  | ZodEffects zod "jsval \<Rightarrow> jsval + jsval"
  | ZodDescribe zod string

text \<open>
  The issues of this fragment: a value of the wrong type, with the expected and the
  received type, and a value that no option of a union accepts, with the issues of every
  option. Each has the path of the value and a message.
\<close>

datatype zod_issue =
    InvalidType (expected: string) (received: string) (path: "string list") (imessage: string)
  | InvalidUnion (unionErrors: "zod_issue list list") (path: "string list") (imessage: string)

fun code :: "zod_issue \<Rightarrow> string" where
  "code (InvalidType e r p m) = ''invalid_type''"
| "code (InvalidUnion errs p m) = ''invalid_union''"

text \<open>
  The outcome of parsing: a valid value, a list of issues, or an exception that escaped
  from a transform.
\<close>

datatype parse_return = OK jsval | INVALID "zod_issue list" | THROWN jsval

fun parsedType :: "jsval \<Rightarrow> string" where
  "parsedType JUndefined = ''undefined''"
| "parsedType JNull = ''null''"
| "parsedType (JBool b) = ''boolean''"
| "parsedType (JNum i) = ''number''"
| "parsedType (JStr s) = ''string''"
| "parsedType (JArr xs) = ''array''"
| "parsedType (JObj kvs) = ''object''"
| "parsedType (JError nm msg st) = ''object''"

definition invalid_type :: "string \<Rightarrow> jsval \<Rightarrow> string list \<Rightarrow> zod_issue" where
  "invalid_type ex v p =
     InvalidType ex (parsedType v) p
       (if v = JUndefined then ''Required''
        else ''Expected '' @ ex @ '', received '' @ parsedType v)"

text \<open>Property read \<open>data[key]\<close> and the test \<open>key in data\<close>.\<close>

fun getProp :: "jsval \<Rightarrow> string \<Rightarrow> jsval" where
  "getProp (JObj kvs) k = (case map_of kvs k of Some v \<Rightarrow> v | None \<Rightarrow> JUndefined)"
| "getProp (JError nm msg st) k =
     (if k = ''name'' then JStr nm
      else if k = ''message'' then JStr msg
      else if k = ''status'' then (case st of Some v \<Rightarrow> v | None \<Rightarrow> JUndefined)
      else JUndefined)"
| "getProp v k = JUndefined"

fun hasProp :: "jsval \<Rightarrow> string \<Rightarrow> bool" where
  "hasProp (JObj kvs) k = (map_of kvs k \<noteq> None)"
| "hasProp (JError nm msg st) k =
     (k = ''name'' \<or> k = ''message'' \<or> (k = ''status'' \<and> st \<noteq> None))"
| "hasProp v k = False"

text \<open>
  Parsing. An object schema requires an object, parses every key of its shape (a missing
  key is parsed as \<open>undefined\<close>), collects the issues of all keys and strips unknown keys.
  A union returns the first option that is valid and, when none is, reports one issue
  that holds the issues of every option. An exception thrown by a transform escapes at
  once.
\<close>

fun zparse :: "zod \<Rightarrow> string list \<Rightarrow> jsval \<Rightarrow> parse_return"
  and zparse_shape ::
    "(string \<times> zod) list \<Rightarrow> string list \<Rightarrow> jsval
      \<Rightarrow> jsval + (zod_issue list \<times> (string \<times> jsval) list)"
  and zparse_union ::
    "zod list \<Rightarrow> string list \<Rightarrow> jsval \<Rightarrow> zod_issue list list \<Rightarrow> parse_return"
where
  "zparse ZodString p v =
     (case v of JStr s \<Rightarrow> OK v | _ \<Rightarrow> INVALID [invalid_type ''string'' v p])"
| "zparse ZodNumber p v =
     (case v of JNum i \<Rightarrow> OK v | _ \<Rightarrow> INVALID [invalid_type ''number'' v p])"
| "zparse ZodBoolean p v =
     (case v of JBool b \<Rightarrow> OK v | _ \<Rightarrow> INVALID [invalid_type ''boolean'' v p])"
| "zparse (ZodObject shape) p v =
     (if parsedType v \<noteq> ''object'' then INVALID [invalid_type ''object'' v p]
      else case zparse_shape shape p v of
             Inl e \<Rightarrow> THROWN e
           | Inr (issues, pairs) \<Rightarrow> if issues = [] then OK (JObj pairs) else INVALID issues)"
| "zparse (ZodNullable s) p v = (if v = JNull then OK JNull else zparse s p v)"
| "zparse (ZodOptional s) p v = (if v = JUndefined then OK JUndefined else zparse s p v)"
| "zparse (ZodUnion options) p v = zparse_union options p v []"
| "zparse (ZodEffects s transform) p v =
     (case zparse s p v of
        OK x \<Rightarrow> (case transform x of Inl e \<Rightarrow> THROWN e | Inr y \<Rightarrow> OK y)
      | INVALID issues \<Rightarrow> INVALID issues
      | THROWN e \<Rightarrow> THROWN e)"
| "zparse (ZodDescribe s d) p v = zparse s p v"
| "zparse_shape [] p v = Inr ([], [])"
| "zparse_shape (ks # rest) p v =
     (case zparse (snd ks) (p @ [fst ks]) (getProp v (fst ks)) of
        THROWN e \<Rightarrow> Inl e
      | OK x \<Rightarrow>
          (case zparse_shape rest p v of
             Inl e \<Rightarrow> Inl e
           | Inr (issues, pairs) \<Rightarrow>
               Inr (issues,
                    if x \<noteq> JUndefined \<or> hasProp v (fst ks) then (fst ks, x) # pairs
                    else pairs))
      | INVALID here \<Rightarrow>
          (case zparse_shape rest p v of
             Inl e \<Rightarrow> Inl e
           | Inr (issues, pairs) \<Rightarrow> Inr (here @ issues, pairs)))"
| "zparse_union [] p v errs = INVALID [InvalidUnion errs p ''Invalid input'']"
| "zparse_union (s # rest) p v errs =
     (case zparse s p v of
        OK x \<Rightarrow> OK x
      | THROWN e \<Rightarrow> THROWN e
      | INVALID issues \<Rightarrow> zparse_union rest p v (errs @ [issues]))"

text \<open>
  \<open>JSON.stringify(value, null, 2)\<close> on strings, arrays and objects, the values that make
  up an issue. A string is quoted, with the quote, the backslash and the control
  characters escaped. A non-empty array or object puts each element or member on a line
  of its own, indented by two more spaces than the line that opens it.
\<close>

datatype json = JString string | JArray "json list" | JObject "(string \<times> json) list"

definition hexDigit :: "nat \<Rightarrow> char" where
  "hexDigit n = ''0123456789abcdef'' ! n"

definition escapeChar :: "char \<Rightarrow> string" where
  "escapeChar c =
     (let n = (of_char c :: nat)
      in if n = 34 then [CHR 0x5C, CHR 0x22]
         else if n = 92 then [CHR 0x5C, CHR 0x5C]
         else if n = 8 then [CHR 0x5C, CHR ''b'']
         else if n = 12 then [CHR 0x5C, CHR ''f'']
         else if n = 10 then [CHR 0x5C, CHR ''n'']
         else if n = 13 then [CHR 0x5C, CHR ''r'']
         else if n = 9 then [CHR 0x5C, CHR ''t'']
         else if n < 32 then
           [CHR 0x5C, CHR ''u'', CHR ''0'', CHR ''0'', hexDigit (n div 16), hexDigit (n mod 16)]
         else [c])"

definition quote :: "string \<Rightarrow> string" where
  "quote s = CHR 0x22 # concat (map escapeChar s) @ [CHR 0x22]"

definition spaces :: "nat \<Rightarrow> string" where
  "spaces n = replicate n CHR '' ''"

fun stringify :: "nat \<Rightarrow> json \<Rightarrow> string"
  and stringify_elements :: "nat \<Rightarrow> json list \<Rightarrow> string list"
  and stringify_members :: "nat \<Rightarrow> (string \<times> json) list \<Rightarrow> string list"
where
  "stringify ind (JString s) = quote s"
| "stringify ind (JArray xs) =
     (if xs = [] then ''[]''
      else ''['' @ [CHR 0x0A] @ spaces (ind + 2)
           @ join ('','' @ [CHR 0x0A] @ spaces (ind + 2)) (stringify_elements (ind + 2) xs)
           @ [CHR 0x0A] @ spaces ind @ '']'')"
| "stringify ind (JObject kvs) =
     (if kvs = [] then ''{}''
      else ''{'' @ [CHR 0x0A] @ spaces (ind + 2)
           @ join ('','' @ [CHR 0x0A] @ spaces (ind + 2)) (stringify_members (ind + 2) kvs)
           @ [CHR 0x0A] @ spaces ind @ ''}'')"
| "stringify_elements ind [] = []"
| "stringify_elements ind (x # xs) = stringify ind x # stringify_elements ind xs"
| "stringify_members ind [] = []"
| "stringify_members ind (kv # kvs) =
     (quote (fst kv) @ '': '' @ stringify ind (snd kv)) # stringify_members ind kvs"

text \<open>
  An issue as the object that zod builds: the code, the data of the issue, the path and
  the message, in this order. A \<open>ZodError\<close> inside \<open>unionErrors\<close> serialises its own
  enumerable properties, \<open>issues\<close> and \<open>name\<close>.
\<close>

fun issueJson :: "zod_issue \<Rightarrow> json" where
  "issueJson (InvalidType e r p m) =
     JObject [(''code'', JString ''invalid_type''),
              (''expected'', JString e),
              (''received'', JString r),
              (''path'', JArray (map JString p)),
              (''message'', JString m)]"
| "issueJson (InvalidUnion errs p m) =
     JObject [(''code'', JString ''invalid_union''),
              (''unionErrors'',
               JArray (map (\<lambda>issues. JObject [(''issues'', JArray (map issueJson issues)),
                                               (''name'', JString ''ZodError'')])
                         errs)),
              (''path'', JArray (map JString p)),
              (''message'', JString m)]"

text \<open>
  \<open>safeParse\<close> starts at the empty path: \<open>OK\<close> is \<open>{success: true, data}\<close>, \<open>INVALID\<close> is
  \<open>{success: false, error}\<close> with \<open>error\<close> the \<open>ZodError\<close> of the issues. The message of
  a \<open>ZodError\<close> is \<open>JSON.stringify(issues, null, 2)\<close>.
\<close>

definition safeParse :: "zod \<Rightarrow> jsval \<Rightarrow> parse_return" where
  "safeParse s v = zparse s [] v"

definition zodErrorMessage :: "zod_issue list \<Rightarrow> string" where
  "zodErrorMessage issues = stringify 0 (JArray (map issueJson issues))"

definition ZodError :: "zod_issue list \<Rightarrow> jsval" where
  "ZodError issues = JError ''ZodError'' (zodErrorMessage issues) None"

text \<open>\<open>parse\<close> throws the \<open>ZodError\<close> where \<open>safeParse\<close> reports it.\<close>

definition parse :: "zod \<Rightarrow> jsval \<Rightarrow> jsval + jsval" where
  "parse s v =
     (case safeParse s v of
        OK x \<Rightarrow> Inr x
      | INVALID issues \<Rightarrow> Inl (ZodError issues)
      | THROWN e \<Rightarrow> Inl e)"

text \<open>
  \<open>isOptional\<close> and \<open>isNullable\<close> are defined by zod as the success of
  \<open>safeParse(undefined)\<close> and of \<open>safeParse(null)\<close>; an exception that escapes
  from a transform is no success.
\<close>

definition isOptional :: "zod \<Rightarrow> bool" where
  "isOptional s = (case safeParse s JUndefined of OK x \<Rightarrow> True | _ \<Rightarrow> False)"

definition isNullable :: "zod \<Rightarrow> bool" where
  "isNullable s = (case safeParse s JNull of OK x \<Rightarrow> True | _ \<Rightarrow> False)"

text \<open>
  \<open>schema instanceof z.ZodObject\<close> together with its \<open>shape\<close>: \<open>None\<close> when the schema is
  of another class.
\<close>

fun zodObjectShape :: "zod \<Rightarrow> (string \<times> zod) list option" where
  "zodObjectShape (ZodObject shape) = Some shape"
| "zodObjectShape (ZodDescribe s d) = zodObjectShape s"
| "zodObjectShape s = None"

text \<open>
  \<open>extend\<close> (here \<open>zod_extend\<close>) spreads the augmentation over the shape: a key already present keeps its
  position and takes the new schema, a new key is appended.
\<close>

fun zod_extend :: "zod \<Rightarrow> (string \<times> zod) list \<Rightarrow> zod" where
  "zod_extend (ZodObject shape) augmentation =
     ZodObject (fold (\<lambda>kv sh. AList.update (fst kv) (snd kv) sh) augmentation shape)"
| "zod_extend (ZodDescribe s d) augmentation = ZodDescribe (zod_extend s augmentation) d"
| "zod_extend s augmentation = s"

section \<open>Actions (actions/builder.ts)\<close>

record ActionSchema =
  name :: string
  description :: string
  schema :: zod

text \<open>
  An action wraps a handler. The handler's result type \<open>'r\<close> is the \<open>ActionResult\<close> class;
  a handler that rejects returns \<open>Inl\<close>. The field \<open>aschema\<close> is the source's
  \<open>Action.schema\<close>.
\<close>

record 'r Action =
  handler :: "jsval \<Rightarrow> jsval + 'r"
  aschema :: ActionSchema
  hasIndex :: bool
  needsDelay :: bool

text \<open>
  \<open>Action.call\<close>. The first component of the result lists the arguments the handler was
  invoked with (empty when it was not invoked); the second is what the call returns or
  throws.
\<close>

definition isEmptySchema :: "zod \<Rightarrow> bool" where
  "isEmptySchema s =
     (case zodObjectShape s of
        Some shape \<Rightarrow> length (map fst shape) = 0
      | None \<Rightarrow> False)"

definition call :: "'r Action \<Rightarrow> jsval \<Rightarrow> jsval list \<times> (jsval + 'r)" where
  "call a input =
     (if isEmptySchema (schema (aschema a)) then ([JObj []], handler a (JObj []))
      else case safeParse (schema (aschema a)) input of
             INVALID issues \<Rightarrow>
               (let errorMessage = zodErrorMessage issues
                in ([], Inl (InvalidInputError errorMessage)))
           | OK data \<Rightarrow> ([data], handler a data)
           | THROWN e \<Rightarrow> ([], Inl e))"

text \<open>\<open>buildDynamicActionSchema\<close>: the loop over the actions, starting from \<open>z.object({})\<close>.\<close>

definition buildDynamicActionSchema :: "'r Action list \<Rightarrow> zod" where
  "buildDynamicActionSchema actions =
     fold (\<lambda>action sch.
             let actionSchema = schema (aschema action)
             in zod_extend sch
                  [(name (aschema action),
                    ZodDescribe (ZodOptional (ZodNullable actionSchema))
                      (description (aschema action)))])
          actions (ZodObject [])"

section \<open>The boolean coercion of the planner output (planner.test.ts)\<close>

definition booleanStringTransform :: "jsval \<Rightarrow> jsval + jsval" where
  "booleanStringTransform v =
     (case v of
        JStr val \<Rightarrow>
          (let lower = trim (toLowerCase val)
           in if lower = ''true'' then Inr (JBool True)
              else if lower = ''false'' then Inr (JBool False)
              else Inl (Error (''Invalid boolean string: '' @ [CHR 0x22] @ val @ [CHR 0x22])))
      | _ \<Rightarrow> Inl (JError ''TypeError'' ''val.toLowerCase is not a function'' None))"

definition booleanStringSchema :: zod where
  "booleanStringSchema = ZodUnion [ZodBoolean, ZodEffects ZodString booleanStringTransform]"

definition testPlannerOutputSchema :: zod where
  "testPlannerOutputSchema =
     ZodObject
       [(''observation'', ZodString),
        (''challenges'', ZodString),
        (''done'', booleanStringSchema),
        (''next_steps'', ZodString),
        (''final_answer'', ZodString),
        (''reasoning'', ZodString),
        (''web_task'', booleanStringSchema)]"

section \<open>The model invocation layer (agents/base.ts)\<close>

text \<open>
  The provider identifiers of \<open>ProviderTypeEnum\<close> are declared in the storage package;
  the functions below take them as a parameter.
\<close>

record ProviderTypeEnum =
  Gemini :: string
  OpenAI :: string
  Anthropic :: string
  Llama :: string
  DeepSeek :: string

text \<open>
  A message has a class (\<open>HumanMessage\<close>, \<open>AIMessage\<close>, ...) and a content that is either
  a string or an array of parts. A part has a \<open>type\<close>, and may have a \<open>text\<close> and an
  \<open>image_url\<close> property.
\<close>

record ContentItem =
  item_type :: string
  item_text :: "string option"
  item_image_url :: "string option"

datatype MessageContent = StringContent string | ArrayContent "ContentItem list"

record BaseMessage =
  message_class :: string
  content :: MessageContent

record StructuredResponse =
  parsed :: jsval
  raw :: "BaseMessage option"

text \<open>
  The chat model: the structured call and the free-form call, each of which returns a
  response or throws. The cancellation signal is passed to both; a cancelled call is a
  call that throws an aborted error.
\<close>

record ChatModel =
  structuredInvoke :: "BaseMessage list \<Rightarrow> jsval + StructuredResponse"
  plainInvoke :: "BaseMessage list \<Rightarrow> jsval + BaseMessage"

text \<open>
  The helpers of \<open>messages/utils\<close> are taken as parameters: \<open>extractJsonFromModelOutput\<close>
  returns the parsed JSON or throws.
\<close>

record MessageUtils =
  convertInputMessages :: "BaseMessage list \<Rightarrow> string \<Rightarrow> BaseMessage list"
  extractJsonFromModelOutput :: "string \<Rightarrow> jsval + jsval"
  removeThinkTags :: "string \<Rightarrow> string"

record BaseAgent =
  modelName :: string
  provider :: string
  chatModelLibrary :: string
  withStructuredOutput :: bool
  modelOutputSchema :: zod

text \<open>What an invocation does besides returning: the model calls and the manual parses.\<close>

datatype event =
    StructuredCall "BaseMessage list"
  | PlainCall "BaseMessage list"
  | ManualParse string

definition isLlamaModel :: "string \<Rightarrow> bool" where
  "isLlamaModel mn =
     (str_includes mn ''Llama-4'' \<or> str_includes mn ''Llama-3.3'' \<or> str_includes mn ''llama-3.3'')"

definition supportsVision :: "ProviderTypeEnum \<Rightarrow> BaseAgent \<Rightarrow> bool" where
  "supportsVision P this =
     (let modelNameLower = toLowerCase (modelName this)
      in if provider this = Gemini P \<or> chatModelLibrary this = ''ChatGoogleGenerativeAI'' then
           (if str_includes modelNameLower ''preview'' then False
            else if str_includes modelNameLower ''flash'' \<and> str_includes modelNameLower ''2.''
              then True
            else if str_includes modelNameLower ''pro'' \<and> str_includes modelNameLower ''2.''
              then True
            else False)
         else if provider this = OpenAI P \<or> chatModelLibrary this = ''ChatOpenAI'' then
           (if str_includes modelNameLower ''gpt-4o'' \<or> str_includes modelNameLower ''gpt-5''
              then True
            else if str_includes modelNameLower ''vision'' then True
            else if str_includes modelNameLower ''gpt-4-turbo'' then True
            else False)
         else if provider this = Anthropic P \<or> chatModelLibrary this = ''ChatAnthropic'' then
           (if str_includes modelNameLower ''claude-3'' \<or> str_includes modelNameLower ''claude-4''
              then True
            else False)
         else if provider this = Llama P \<or> isLlamaModel (modelName this) then False
         else if provider this = DeepSeek P then False
         else False)"

definition setWithStructuredOutput :: "ProviderTypeEnum \<Rightarrow> string \<Rightarrow> string \<Rightarrow> bool" where
  "setWithStructuredOutput P mn prov =
     (if mn = ''deepseek-reasoner'' \<or> mn = ''deepseek-r1'' then False
      else if prov = Llama P \<or> isLlamaModel mn then False
      else True)"

definition stripImagesFromMessages ::
  "ProviderTypeEnum \<Rightarrow> BaseAgent \<Rightarrow> BaseMessage list \<Rightarrow> BaseMessage list" where
  "stripImagesFromMessages P this messages =
     (if supportsVision P this then messages
      else map (\<lambda>message.
                  case content message of
                    ArrayContent items \<Rightarrow>
                      (let textContent =
                             join [CHR 0x0A]
                               (map (\<lambda>item. case item_text item of Some t \<Rightarrow> t | None \<Rightarrow> [])
                                  (filter (\<lambda>item. item_type item = ''text'') items))
                       in message\<lparr>content := StringContent textContent\<rparr>)
                  | StringContent s \<Rightarrow> message)
               messages)"

text \<open>
  \<open>validateModelOutput\<close> returns \<open>undefined\<close> for falsy data, the parsed value when the
  schema accepts, and throws \<open>ResponseParseError\<close> when it does not.
\<close>

definition validateModelOutput :: "BaseAgent \<Rightarrow> jsval \<Rightarrow> jsval + jsval" where
  "validateModelOutput this data =
     (if \<not> truthy data then Inr JUndefined
      else case parse (modelOutputSchema this) data of
             Inr v \<Rightarrow> Inr v
           | Inl e \<Rightarrow> Inl (ResponseParseError ''Could not validate model output''))"

text \<open>\<open>manuallyParseResponse\<close> catches every failure and returns \<open>undefined\<close> for it.\<close>

definition manuallyParseResponse :: "MessageUtils \<Rightarrow> BaseAgent \<Rightarrow> string \<Rightarrow> jsval" where
  "manuallyParseResponse U this c =
     (let cleanedContent = removeThinkTags U c
      in case extractJsonFromModelOutput U cleanedContent of
           Inl e \<Rightarrow> JUndefined
         | Inr extractedJson \<Rightarrow>
             (case validateModelOutput this extractedJson of
                Inl e \<Rightarrow> JUndefined
              | Inr v \<Rightarrow> v))"

text \<open>
  The \<open>catch\<close> block of the structured path. \<open>response\<close> is \<open>None\<close> while the variable is
  still \<open>undefined\<close>, that is when the structured call itself threw. An exception of the
  string conversion of the caught value leaves the block.
\<close>

definition structuredCatch ::
  "MessageUtils \<Rightarrow> BaseAgent \<Rightarrow> jsval \<Rightarrow> StructuredResponse option
    \<Rightarrow> event list \<times> (jsval + jsval)" where
  "structuredCatch U this err response =
     (if isAbortedError err then ([], Inl err)
      else
        case messageOrString err of
          Inl thrown \<Rightarrow> ([], Inl thrown)
        | Inr errorMessage \<Rightarrow>
            (let failure = Inl (Error (''Failed to invoke '' @ modelName this
                                       @ '' with structured output: '' @ [CHR 0x0A]
                                       @ errorMessage))
             in if str_includes errorMessage ''is not valid JSON'' then
                  (case response of
                     None \<Rightarrow> ([], failure)
                   | Some r \<Rightarrow>
                       (case raw r of
                          None \<Rightarrow> ([], failure)
                        | Some m \<Rightarrow>
                            (case content m of
                               StringContent c \<Rightarrow>
                                 (if c = [] then ([], failure)
                                  else let p = manuallyParseResponse U this c
                                       in if truthy p then ([ManualParse c], Inr p)
                                          else ([ManualParse c], failure))
                             | ArrayContent items \<Rightarrow> ([], failure))))
                else ([], failure)))"

text \<open>\<open>BaseAgent.invoke\<close>: the events of the invocation and what it returns or throws.\<close>

definition invoke ::
  "ProviderTypeEnum \<Rightarrow> MessageUtils \<Rightarrow> ChatModel \<Rightarrow> BaseAgent \<Rightarrow> BaseMessage list
    \<Rightarrow> event list \<times> (jsval + jsval)" where
  "invoke P U chatLLM this inputMessages =
     (let processedMessages = stripImagesFromMessages P this inputMessages
      in if withStructuredOutput this then
           (case structuredInvoke chatLLM processedMessages of
              Inl err \<Rightarrow>
                (let (evs, res) = structuredCatch U this err None
                 in (StructuredCall processedMessages # evs, res))
            | Inr response \<Rightarrow>
                if truthy (parsed response) then
                  ([StructuredCall processedMessages], Inr (parsed response))
                else
                  (let (evs, res) =
                         structuredCatch U this
                           (Error ''Could not parse response with structured output'')
                           (Some response)
                   in (StructuredCall processedMessages # evs, res)))
         else
           (let convertedInputMessages =
                  convertInputMessages U processedMessages (modelName this)
            in case plainInvoke chatLLM convertedInputMessages of
                 Inl err \<Rightarrow> ([PlainCall convertedInputMessages], Inl err)
               | Inr response \<Rightarrow>
                   (case content response of
                      StringContent c \<Rightarrow>
                        (let p = manuallyParseResponse U this c
                         in if truthy p then
                              ([PlainCall convertedInputMessages, ManualParse c], Inr p)
                            else
                              ([PlainCall convertedInputMessages, ManualParse c],
                               Inl (ResponseParseError ''Could not parse response'')))
                    | ArrayContent items \<Rightarrow>
                        ([PlainCall convertedInputMessages],
                         Inl (ResponseParseError ''Could not parse response'')))))"

section \<open>The memory store (storage package, agent memory)\<close>

text \<open>
  The fields \<open>id\<close> and \<open>description\<close> of a learned pattern are named \<open>pattern_id\<close> and
  \<open>pattern_description\<close> here. Timestamps are the integers of \<open>Date.now()\<close>.
\<close>

record LearnedPattern =
  pattern_id :: string
  taskType :: string
  domain :: string
  pattern_description :: string
  selectors :: "string list option"
  actionSequence :: "string list option"
  successCount :: int
  lastUsed :: int
  createdAt :: int

record UserPreference =
  key :: string
  pvalue :: string
  learnedFrom :: string
  confidence :: real
  lastUpdated :: int

record MemorySettings =
  enabled :: bool
  maxPatterns :: int
  maxPreferences :: int

text \<open>\<open>settings\<close> is \<open>None\<close> when the stored object has no settings.\<close>

record AgentMemory =
  settings :: "MemorySettings option"
  patterns :: "LearnedPattern list"
  preferences :: "UserPreference list"

definition DEFAULT_MEMORY_SETTINGS :: MemorySettings where
  "DEFAULT_MEMORY_SETTINGS = \<lparr>enabled = True, maxPatterns = 100, maxPreferences = 50\<rparr>"

definition DEFAULT_AGENT_MEMORY :: AgentMemory where
  "DEFAULT_AGENT_MEMORY =
     \<lparr>settings = Some DEFAULT_MEMORY_SETTINGS, patterns = [], preferences = []\<rparr>"

text \<open>\<open>memory.settings || DEFAULT_MEMORY_SETTINGS\<close>.\<close>

definition getSettings :: "AgentMemory \<Rightarrow> MemorySettings" where
  "getSettings memory = (case settings memory of Some s \<Rightarrow> s | None \<Rightarrow> DEFAULT_MEMORY_SETTINGS)"

text \<open>\<open>findIndex\<close>: the first index whose element satisfies the test, \<open>None\<close> for \<open>-1\<close>.\<close>

fun findIndex :: "('a \<Rightarrow> bool) \<Rightarrow> 'a list \<Rightarrow> nat option" where
  "findIndex f [] = None"
| "findIndex f (x # xs) =
     (if f x then Some 0 else case findIndex f xs of None \<Rightarrow> None | Some i \<Rightarrow> Some (Suc i))"

text \<open>\<open>xs.slice(0, n)\<close>: a negative end counts from the end of the array.\<close>

definition slice0 :: "'a list \<Rightarrow> int \<Rightarrow> 'a list" where
  "slice0 xs n = (if n < 0 then take (nat (int (length xs) + n)) xs else take (nat n) xs)"

text \<open>
  \<open>xs.sort((a, b) => k(b) - k(a))\<close>: a stable sort by descending key.
\<close>

definition sortDescBy :: "('a \<Rightarrow> int) \<Rightarrow> 'a list \<Rightarrow> 'a list" where
  "sortDescBy k xs = sort_key (\<lambda>x. - k x) xs"

text \<open>
  The argument of \<open>addPattern\<close>: a pattern without \<open>id\<close>, \<open>createdAt\<close> and
  \<open>successCount\<close>.
\<close>

record PatternInput =
  in_taskType :: string
  in_domain :: string
  in_description :: string
  in_selectors :: "string list option"
  in_actionSequence :: "string list option"
  in_lastUsed :: int

text \<open>
  \<open>addPattern\<close>, from the stored memory to the memory it stores. \<open>uuid\<close> is the result of
  \<open>crypto.randomUUID()\<close> and \<open>now k\<close> the result of the \<open>k\<close>-th reading of the clock
  during the call.
\<close>

definition newPattern :: "string \<Rightarrow> (nat \<Rightarrow> int) \<Rightarrow> PatternInput \<Rightarrow> LearnedPattern" where
  "newPattern uuid now pattern =
     \<lparr>pattern_id = uuid,
      taskType = in_taskType pattern,
      domain = in_domain pattern,
      pattern_description = in_description pattern,
      selectors = in_selectors pattern,
      actionSequence = in_actionSequence pattern,
      successCount = 1,
      lastUsed = now 1,
      createdAt = now 0\<rparr>"

definition addPattern :: "string \<Rightarrow> (nat \<Rightarrow> int) \<Rightarrow> AgentMemory \<Rightarrow> PatternInput \<Rightarrow> AgentMemory" where
  "addPattern uuid now memory pattern =
     (let st = getSettings memory;
          existingIndex =
            findIndex (\<lambda>p. domain p = in_domain pattern \<and> taskType p = in_taskType pattern
                          \<and> pattern_description p = in_description pattern)
              (patterns memory)
      in case existingIndex of
           Some i \<Rightarrow>
             memory\<lparr>patterns :=
               (patterns memory)[i := (patterns memory ! i)
                  \<lparr>successCount := successCount (patterns memory ! i) + 1, lastUsed := now 0\<rparr>]\<rparr>
         | None \<Rightarrow>
             (let ps = patterns memory @ [newPattern uuid now pattern];
                  ps' = (if int (length ps) > maxPatterns st
                         then slice0 (sortDescBy lastUsed ps) (maxPatterns st)
                         else ps)
              in memory\<lparr>patterns := ps'\<rparr>))"

text \<open>The argument of \<open>setPreference\<close>: a preference without \<open>lastUpdated\<close>.\<close>

record PreferenceInput =
  in_key :: string
  in_value :: string
  in_learnedFrom :: string
  in_confidence :: real

definition newPref :: "(nat \<Rightarrow> int) \<Rightarrow> PreferenceInput \<Rightarrow> UserPreference" where
  "newPref now preference =
     \<lparr>key = in_key preference,
      pvalue = in_value preference,
      learnedFrom = in_learnedFrom preference,
      confidence = in_confidence preference,
      lastUpdated = now 0\<rparr>"

definition setPreference :: "(nat \<Rightarrow> int) \<Rightarrow> AgentMemory \<Rightarrow> PreferenceInput \<Rightarrow> AgentMemory" where
  "setPreference now memory preference =
     (let st = getSettings memory;
          existingIndex = findIndex (\<lambda>p. key p = in_key preference) (preferences memory);
          prefs = (case existingIndex of
                     Some i \<Rightarrow> (preferences memory)[i := newPref now preference]
                   | None \<Rightarrow> preferences memory @ [newPref now preference]);
          prefs' = (if int (length prefs) > maxPreferences st
                    then slice0 (sortDescBy lastUpdated prefs) (maxPreferences st)
                    else prefs)
      in memory\<lparr>preferences := prefs'\<rparr>)"

section \<open>Definitions that follow the specification\<close>

text \<open>
  Modelled from the spec: the caller that applies the classification predicates in the
  fixed priority order aborted, authentication, forbidden, bad request, conflict,
  unclassified. That caller is the execution driver, which is not among the sources.
\<close>

datatype error_kind =
  Aborted | Authentication | Forbidden | BadRequest | EnvironmentConflict | Unclassified

definition classify :: "jsval \<Rightarrow> error_kind" where
  "classify e =
     (if isAbortedError e then Aborted
      else if isAuthenticationError e then Authentication
      else if isForbiddenError e then Forbidden
      else if isBadRequestError e then BadRequest
      else if isExtensionConflictError e = Inr True then EnvironmentConflict
      else Unclassified)"

text \<open>
  The static rule table of vision support, as the specification describes it: each row
  names a provider family (by provider identifier or by client library) and the
  substrings that the lower-cased model name must all contain.
\<close>

definition visionRuleTable :: "ProviderTypeEnum \<Rightarrow> (string \<times> string \<times> string list) list" where
  "visionRuleTable P =
     [(Gemini P, ''ChatGoogleGenerativeAI'', [''flash'', ''2.'']),
      (Gemini P, ''ChatGoogleGenerativeAI'', [''pro'', ''2.'']),
      (OpenAI P, ''ChatOpenAI'', [''gpt-4o'']),
      (OpenAI P, ''ChatOpenAI'', [''gpt-5'']),
      (OpenAI P, ''ChatOpenAI'', [''vision'']),
      (OpenAI P, ''ChatOpenAI'', [''gpt-4-turbo'']),
      (Anthropic P, ''ChatAnthropic'', [''claude-3'']),
      (Anthropic P, ''ChatAnthropic'', [''claude-4''])]"

definition matchesRule :: "BaseAgent \<Rightarrow> string \<times> string \<times> string list \<Rightarrow> bool" where
  "matchesRule this row =
     (case row of (prov, lib, subs) \<Rightarrow>
        (provider this = prov \<or> chatModelLibrary this = lib)
        \<and> list_all (str_includes (toLowerCase (modelName this))) subs)"

definition matchesVisionPattern :: "ProviderTypeEnum \<Rightarrow> BaseAgent \<Rightarrow> bool" where
  "matchesVisionPattern P this = list_ex (matchesRule this) (visionRuleTable P)"

text \<open>The text parts of an array content, joined by line feeds.\<close>

definition textOf :: "ContentItem list \<Rightarrow> string" where
  "textOf items =
     join [CHR 0x0A]
       (map (\<lambda>item. case item_text item of Some t \<Rightarrow> t | None \<Rightarrow> [])
          (filter (\<lambda>item. item_type item = ''text'') items))"


text \<open>The field that \<open>buildDynamicActionSchema\<close> gives to an action.\<close>

definition actionField :: "'r Action \<Rightarrow> zod" where
  "actionField a =
     ZodDescribe (ZodOptional (ZodNullable (schema (aschema a)))) (description (aschema a))"

section \<open>Example values\<close>

text \<open>
  Provider identifiers, message helpers whose JSON extraction always fails, three chat
  models (one whose calls are cancelled, one whose calls are refused, one that answers
  with text that holds no JSON), and agents on the structured and on the manual path.
\<close>

definition exampleProviders :: ProviderTypeEnum where
  "exampleProviders =
     \<lparr>Gemini = ''gemini'', OpenAI = ''openai'', Anthropic = ''anthropic'',
      Llama = ''llama'', DeepSeek = ''deepseek''\<rparr>"

definition exampleUtils :: MessageUtils where
  "exampleUtils =
     \<lparr>convertInputMessages = (\<lambda>ms mn. ms),
      extractJsonFromModelOutput =
        (\<lambda>s. Inl (JError ''SyntaxError'' ''Unexpected token'' None)),
      removeThinkTags = (\<lambda>s. s)\<rparr>"

definition abortError :: jsval where
  "abortError = JError ''AbortError'' ''Request failed with status 403'' None"

definition cancelledModel :: ChatModel where
  "cancelledModel =
     \<lparr>structuredInvoke = (\<lambda>ms. Inl abortError), plainInvoke = (\<lambda>ms. Inl abortError)\<rparr>"



definition structuredAgent :: BaseAgent where
  "structuredAgent =
     \<lparr>modelName = ''gpt-4o'', provider = ''openai'', chatModelLibrary = ''ChatOpenAI'',
      withStructuredOutput = True, modelOutputSchema = ZodObject [(''done'', ZodBoolean)]\<rparr>"

definition manualAgent :: BaseAgent where
  "manualAgent =
     \<lparr>modelName = ''deepseek-r1'', provider = ''deepseek'', chatModelLibrary = ''ChatOpenAI'',
      withStructuredOutput = False, modelOutputSchema = ZodObject [(''done'', ZodBoolean)]\<rparr>"

text \<open>
  An agent of a provider that the vision rules do not know, and a message with two text
  parts around an image.
\<close>

definition unknownAgent :: BaseAgent where
  "unknownAgent =
     \<lparr>modelName = ''llava:13b'', provider = ''ollama'', chatModelLibrary = ''ChatOllama'',
      withStructuredOutput = True, modelOutputSchema = ZodObject [(''done'', ZodBoolean)]\<rparr>"

definition imageMessage :: BaseMessage where
  "imageMessage =
     \<lparr>message_class = ''HumanMessage'',
      content = ArrayContent
        [\<lparr>item_type = ''text'', item_text = Some ''Current page:'', item_image_url = None\<rparr>,
         \<lparr>item_type = ''image_url'', item_text = None,
          item_image_url = Some ''data:image/jpeg;base64,AAAA''\<rparr>,
         \<lparr>item_type = ''text'', item_text = Some ''What next?'', item_image_url = None\<rparr>]\<rparr>"

text \<open>
  A memory that is full: two patterns with a limit of two, one preference with a limit
  of one.
\<close>

definition examplePattern :: "string \<Rightarrow> int \<Rightarrow> LearnedPattern" where
  "examplePattern i t =
     \<lparr>pattern_id = i, taskType = ''search'', domain = ''example.com'',
      pattern_description = i, selectors = None, actionSequence = None,
      successCount = 1, lastUsed = t, createdAt = t\<rparr>"

definition exampleMemory :: AgentMemory where
  "exampleMemory =
     \<lparr>settings = Some \<lparr>enabled = True, maxPatterns = 2, maxPreferences = 1\<rparr>,
      patterns = [examplePattern ''a'' 10, examplePattern ''b'' 30],
      preferences =
        [\<lparr>key = ''lang'', pvalue = ''en'', learnedFrom = ''chat'', confidence = 1,
          lastUpdated = 5\<rparr>]\<rparr>"

definition examplePatternInput :: PatternInput where
  "examplePatternInput =
     \<lparr>in_taskType = ''search'', in_domain = ''example.com'', in_description = ''c'',
      in_selectors = None, in_actionSequence = None, in_lastUsed = 0\<rparr>"

definition existingPatternInput :: PatternInput where
  "existingPatternInput =
     \<lparr>in_taskType = ''search'', in_domain = ''example.com'', in_description = ''b'',
      in_selectors = None, in_actionSequence = None, in_lastUsed = 0\<rparr>"

definition examplePreferenceInput :: PreferenceInput where
  "examplePreferenceInput =
     \<lparr>in_key = ''theme'', in_value = ''dark'', in_learnedFrom = ''settings'',
      in_confidence = 1\<rparr>"

section \<open>Properties of the string functions\<close>

lemma startsWith_iff: "startsWith s sub \<longleftrightarrow> (\<exists>q. s = sub @ q)"
  by (induction s sub rule: startsWith.induct) auto

lemma includes_iff: "str_includes s sub \<longleftrightarrow> (\<exists>p q. s = p @ sub @ q)"
proof (induction s)
  case Nil
  then show ?case by auto
next
  case (Cons x xs)
  show ?case
  proof
    assume "str_includes (x # xs) sub"
    then consider "startsWith (x # xs) sub" | "str_includes xs sub" by auto
    then show "\<exists>p q. x # xs = p @ sub @ q"
    proof cases
      case 1
      then obtain q where "x # xs = sub @ q" unfolding startsWith_iff by blast
      then have "x # xs = [] @ sub @ q" by simp
      then show ?thesis by blast
    next
      case 2
      then obtain p q where "xs = p @ sub @ q" using Cons.IH by blast
      then have "x # xs = (x # p) @ sub @ q" by simp
      then show ?thesis by blast
    qed
  next
    assume "\<exists>p q. x # xs = p @ sub @ q"
    then obtain p q where pq: "x # xs = p @ sub @ q" by blast
    show "str_includes (x # xs) sub"
    proof (cases p)
      case Nil
      with pq have "startsWith (x # xs) sub" unfolding startsWith_iff by auto
      then show ?thesis by simp
    next
      case (Cons a p')
      with pq have "xs = p' @ sub @ q" by simp
      then have "str_includes xs sub" using Cons.IH by blast
      then show ?thesis by simp
    qed
  qed
qed

section \<open>Error taxonomy: non-error input\<close>

text \<open>
  C7 fails for \<open>isExtensionConflictError\<close>: it does not reject a value that is not an
  \<open>Error\<close> instance but converts it to a string and matches the text, so the string
  below is classified as a conflict.
\<close>

theorem conflict_string_counterexample:
  "\<not> instanceofError (JStr ''Cannot access a chrome-extension of different extension'')
   \<and> isExtensionConflictError (JStr ''Cannot access a chrome-extension of different extension'')
       = Inr True"
  by code_simp

text \<open>
  The string conversion is not guarded either: for an object with an own \<open>toString\<close>
  property it throws, and the exception leaves \<open>isExtensionConflictError\<close>.
\<close>

lemma conflict_conversion_throws:
  "\<not> instanceofError v \<Longrightarrow> toString v = Inl t \<Longrightarrow> isExtensionConflictError v = Inl t"
  by (simp add: isExtensionConflictError_def messageOrString_def)

lemma conflict_object_throws:
  "\<not> instanceofError (JObj [(''toString'', JNum 5)])
   \<and> isExtensionConflictError (JObj [(''toString'', JNum 5)])
       = Inl (JError ''TypeError'' ''Cannot convert object to primitive value'' None)"
  by (simp add: isExtensionConflictError_def messageOrString_def TypeError_def)

text \<open>
  C7 (amended): for every input value that is not an \<open>Error\<close> instance, the predicates
  \<open>isAuthenticationError\<close>, \<open>isForbiddenError\<close>, \<open>isBadRequestError\<close> and \<open>isAbortedError\<close>
  return false, and \<open>isExtensionConflictError\<close>, whenever the string conversion of the
  value gives a string, returns a boolean without throwing: true exactly when the
  lower-cased string contains both conflict markers.
\<close>

theorem non_error_predicates:
  "\<not> instanceofError v \<Longrightarrow>
     \<not> isAuthenticationError v \<and> \<not> isForbiddenError v \<and> \<not> isBadRequestError v
     \<and> \<not> isAbortedError v
     \<and> (\<forall>s. toString v = Inr s \<longrightarrow>
            isExtensionConflictError v
            = Inr (str_includes (toLowerCase s) ''cannot access a chrome-extension''
                   \<and> str_includes (toLowerCase s) ''of different extension''))"
proof -
  assume h: "\<not> instanceofError v"
  have a: "\<not> isAuthenticationError v \<and> \<not> isForbiddenError v \<and> \<not> isBadRequestError v
           \<and> \<not> isAbortedError v"
    using h by (cases v) simp_all
  have b: "\<forall>s. toString v = Inr s \<longrightarrow>
            isExtensionConflictError v
            = Inr (str_includes (toLowerCase s) ''cannot access a chrome-extension''
                   \<and> str_includes (toLowerCase s) ''of different extension'')"
    using h by (simp add: isExtensionConflictError_def messageOrString_def Let_def)
  from a b show ?thesis by blast
qed

theorem non_error_predicates_witness:
  "\<not> instanceofError (JNum 400)
   \<and> toString (JNum 400) = Inr ''400''
   \<and> \<not> isAuthenticationError (JNum 400) \<and> \<not> isForbiddenError (JNum 400)
   \<and> \<not> isBadRequestError (JNum 400) \<and> \<not> isAbortedError (JNum 400)
   \<and> isExtensionConflictError (JNum 400) = Inr False"
proof -
  have h: "\<not> instanceofError (JNum 400)" by simp
  have s: "toString (JNum 400) = Inr ''400''" by code_simp
  have c: "\<not> str_includes (toLowerCase ''400'') ''cannot access a chrome-extension''"
    by code_simp
  show ?thesis using non_error_predicates [OF h] s c by simp
qed

section \<open>The decision schema\<close>

lemma fold_extend_shape:
  "fold (\<lambda>action sch.
           let actionSchema = schema (aschema action)
           in zod_extend sch
                [(name (aschema action),
                  ZodDescribe (ZodOptional (ZodNullable actionSchema))
                    (description (aschema action)))])
        actions (ZodObject sh)
   = ZodObject (fold (\<lambda>a sh. AList.update (name (aschema a)) (actionField a) sh) actions sh)"
  by (induction actions arbitrary: sh) (simp_all add: actionField_def)

lemma buildDynamicActionSchema_shape:
  "buildDynamicActionSchema actions
   = ZodObject (fold (\<lambda>a sh. AList.update (name (aschema a)) (actionField a) sh) actions [])"
  unfolding buildDynamicActionSchema_def by (rule fold_extend_shape)

lemma fold_update_distinct:
  "distinct (map fst sh) \<Longrightarrow>
   distinct (map fst (fold (\<lambda>a sh. AList.update (name (aschema a)) (actionField a) sh)
                        actions sh))"
  by (induction actions arbitrary: sh) (simp_all add: distinct_update)

lemma fold_update_keys:
  "fst ` set (fold (\<lambda>a sh. AList.update (name (aschema a)) (actionField a) sh) actions sh)
   = fst ` set sh \<union> (\<lambda>a. name (aschema a)) ` set actions"
  by (induction actions arbitrary: sh) (auto simp: dom_update)

lemma set_update_subset: "set (AList.update k v al) \<subseteq> insert (k, v) (set al)"
  by (induction al) auto

lemma fold_update_values:
  "kf \<in> set (fold (\<lambda>a sh. AList.update (name (aschema a)) (actionField a) sh) actions sh) \<Longrightarrow>
   kf \<in> set sh \<or> (\<exists>a \<in> set actions. kf = (name (aschema a), actionField a))"
proof (induction actions arbitrary: sh)
  case Nil
  then show ?case by simp
next
  case (Cons a actions)
  from Cons.prems have
    "kf \<in> set (fold (\<lambda>a sh. AList.update (name (aschema a)) (actionField a) sh) actions
                 (AList.update (name (aschema a)) (actionField a) sh))"
    by simp
  from Cons.IH [OF this] show ?case
    using set_update_subset [of "name (aschema a)" "actionField a" sh] by auto
qed

lemma actionField_optional: "isOptional (actionField a)"
  by (simp add: actionField_def isOptional_def safeParse_def)

lemma actionField_nullable: "isNullable (actionField a)"
  by (simp add: actionField_def isNullable_def safeParse_def)

text \<open>
  C1: for every list of actions, \<open>buildDynamicActionSchema\<close> returns an object schema
  whose field names are distinct and are exactly the names of the actions, and every
  field is the described, optional, nullable schema of an action of that name, so that it
  is optional and nullable.
\<close>

theorem decision_schema_fields:
  "\<exists>shape. buildDynamicActionSchema actions = ZodObject shape
     \<and> distinct (map fst shape)
     \<and> set (map fst shape) = set (map (\<lambda>a. name (aschema a)) actions)
     \<and> (\<forall>kf \<in> set shape.
           (\<exists>a \<in> set actions.
              kf = (name (aschema a),
                    ZodDescribe (ZodOptional (ZodNullable (schema (aschema a))))
                      (description (aschema a))))
           \<and> isOptional (snd kf) \<and> isNullable (snd kf))"
proof -
  let ?shape = "fold (\<lambda>a sh. AList.update (name (aschema a)) (actionField a) sh) actions []"
  have 1: "buildDynamicActionSchema actions = ZodObject ?shape"
    by (rule buildDynamicActionSchema_shape)
  have 2: "distinct (map fst ?shape)"
    by (rule fold_update_distinct) simp
  have 3: "set (map fst ?shape) = set (map (\<lambda>a. name (aschema a)) actions)"
    using fold_update_keys [of actions "[]"] by simp
  have 4: "\<forall>kf \<in> set ?shape.
             (\<exists>a \<in> set actions.
                kf = (name (aschema a),
                      ZodDescribe (ZodOptional (ZodNullable (schema (aschema a))))
                        (description (aschema a))))
             \<and> isOptional (snd kf) \<and> isNullable (snd kf)"
  proof
    fix kf assume "kf \<in> set ?shape"
    from fold_update_values [OF this]
    have ex: "\<exists>a \<in> set actions. kf = (name (aschema a), actionField a)" by simp
    then have "isOptional (snd kf) \<and> isNullable (snd kf)"
      by (auto simp: actionField_optional actionField_nullable)
    with ex show "(\<exists>a \<in> set actions.
                kf = (name (aschema a),
                      ZodDescribe (ZodOptional (ZodNullable (schema (aschema a))))
                        (description (aschema a))))
             \<and> isOptional (snd kf) \<and> isNullable (snd kf)"
      by (simp add: actionField_def)
  qed
  from 1 2 3 4 show ?thesis by blast
qed

theorem decision_schema_fields_witness:
  "\<exists>shape.
     buildDynamicActionSchema
       [\<lparr>handler = Inr,
         aschema = \<lparr>name = ''go_to_url'', description = ''Navigate'',
                    schema = ZodObject [(''url'', ZodString)]\<rparr>,
         hasIndex = False, needsDelay = True\<rparr>,
        \<lparr>handler = Inr,
         aschema = \<lparr>name = ''wait'', description = ''Wait'', schema = ZodObject []\<rparr>,
         hasIndex = False, needsDelay = False\<rparr>]
     = ZodObject shape
     \<and> shape =
         [(''go_to_url'',
           ZodDescribe (ZodOptional (ZodNullable (ZodObject [(''url'', ZodString)])))
             ''Navigate''),
          (''wait'', ZodDescribe (ZodOptional (ZodNullable (ZodObject []))) ''Wait'')]
     \<and> set (map fst shape) = {''go_to_url'', ''wait''}
     \<and> (\<forall>kf \<in> set shape. isOptional (snd kf) \<and> isNullable (snd kf))"
  using decision_schema_fields [of
     "[\<lparr>handler = Inr,
         aschema = \<lparr>name = ''go_to_url'', description = ''Navigate'',
                    schema = ZodObject [(''url'', ZodString)]\<rparr>,
         hasIndex = False, needsDelay = True\<rparr>,
        \<lparr>handler = Inr,
         aschema = \<lparr>name = ''wait'', description = ''Wait'', schema = ZodObject []\<rparr>,
         hasIndex = False, needsDelay = False\<rparr>]"]
  by (simp add: buildDynamicActionSchema_def)

section \<open>Invoking an action\<close>

lemma join_includes: "x \<in> set xs \<Longrightarrow> \<exists>p q. join sep xs = p @ x @ q"
proof (induction sep xs rule: join.induct)
  case (1 sep)
  then show ?case by simp
next
  case (2 sep y)
  then have "join sep [y] = [] @ x @ []" by simp
  then show ?case by blast
next
  case (3 sep y z zs)
  show ?case
  proof (cases "x = y")
    case True
    then have "join sep (y # z # zs) = [] @ x @ (sep @ join sep (z # zs))" by simp
    then show ?thesis by blast
  next
    case False
    with 3 obtain p q where "join sep (z # zs) = p @ x @ q" by auto
    then have "join sep (y # z # zs) = (y @ sep @ p) @ x @ q" by simp
    then show ?thesis by blast
  qed
qed

lemma stringify_elements_map: "stringify_elements ind xs = map (stringify ind) xs"
  by (induction xs) simp_all

lemma stringify_members_map:
  "stringify_members ind kvs = map (\<lambda>kv. quote (fst kv) @ '': '' @ stringify ind (snd kv)) kvs"
  by (induction kvs) simp_all

lemma array_element_includes:
  assumes "x \<in> set xs"
  shows "\<exists>p q. stringify ind (JArray xs) = p @ stringify (ind + 2) x @ q"
proof -
  from assms have ne: "xs \<noteq> []" by auto
  from assms have "stringify (ind + 2) x \<in> set (stringify_elements (ind + 2) xs)"
    by (simp add: stringify_elements_map)
  from join_includes [OF this]
  obtain p q where
    "join ('','' @ [CHR 0x0A] @ spaces (ind + 2)) (stringify_elements (ind + 2) xs)
     = p @ stringify (ind + 2) x @ q"
    by blast
  with ne have "stringify ind (JArray xs)
      = (''['' @ [CHR 0x0A] @ spaces (ind + 2) @ p) @ stringify (ind + 2) x
        @ (q @ [CHR 0x0A] @ spaces ind @ '']'')"
    by simp
  then show ?thesis by blast
qed

lemma object_member_includes:
  assumes "(k, JString m) \<in> set kvs"
  shows "\<exists>p q. stringify ind (JObject kvs) = p @ quote m @ q"
proof -
  from assms have ne: "kvs \<noteq> []" by auto
  from assms have "quote k @ '': '' @ quote m \<in> set (stringify_members (ind + 2) kvs)"
    by (force simp: stringify_members_map)
  from join_includes [OF this]
  obtain p q where
    "join ('','' @ [CHR 0x0A] @ spaces (ind + 2)) (stringify_members (ind + 2) kvs)
     = p @ (quote k @ '': '' @ quote m) @ q"
    by blast
  with ne have "stringify ind (JObject kvs)
      = (''{'' @ [CHR 0x0A] @ spaces (ind + 2) @ p @ quote k @ '': '') @ quote m
        @ (q @ [CHR 0x0A] @ spaces ind @ ''}'')"
    by simp
  then show ?thesis by blast
qed

lemma issueJson_message: "\<exists>p q. stringify ind (issueJson i) = p @ quote (imessage i) @ q"
proof (cases i)
  case (InvalidType e r pa m)
  show ?thesis unfolding InvalidType issueJson.simps zod_issue.sel
    by (rule object_member_includes [of "''message''"]) simp
next
  case (InvalidUnion errs pa m)
  show ?thesis unfolding InvalidUnion issueJson.simps zod_issue.sel
    by (rule object_member_includes [of "''message''"]) simp
qed

lemma zodErrorMessage_includes:
  assumes "i \<in> set issues"
  shows "str_includes (zodErrorMessage issues) (quote (imessage i))"
proof -
  have "issueJson i \<in> set (map issueJson issues)" using assms by simp
  from array_element_includes [OF this, of 0]
  obtain p q where
    "stringify 0 (JArray (map issueJson issues)) = p @ stringify (0 + 2) (issueJson i) @ q"
    by blast
  then have 1: "zodErrorMessage issues = p @ stringify (0 + 2) (issueJson i) @ q"
    unfolding zodErrorMessage_def .
  from issueJson_message [of "0 + 2" i]
  obtain p' q' where 2: "stringify (0 + 2) (issueJson i) = p' @ quote (imessage i) @ q'"
    by blast
  from 1 2 have "zodErrorMessage issues = (p @ p') @ quote (imessage i) @ (q' @ q)" by simp
  then show ?thesis unfolding includes_iff by blast
qed

text \<open>
  C2 fails for an action whose schema is the empty object schema: \<open>null\<close> fails the
  validation of that schema, yet the call does not validate, invokes the handler with
  the empty object and raises nothing.
\<close>

theorem call_empty_schema_counterexample:
  "safeParse (ZodObject []) JNull
     = INVALID [InvalidType ''object'' ''null'' [] ''Expected object, received null'']
   \<and> call \<lparr>handler = Inr,
            aschema = \<lparr>name = ''go_back'', description = ''Go back'', schema = ZodObject []\<rparr>,
            hasIndex = False, needsDelay = True\<rparr> JNull
       = ([JObj []], Inr (JObj []))"
  by (simp add: safeParse_def invalid_type_def call_def isEmptySchema_def)

text \<open>
  C2 (amended): for every action whose schema is not the empty object schema and every
  input on which the validation of the schema reports failure, \<open>Action.call\<close> does not
  invoke the handler and throws an \<open>InvalidInputError\<close> whose message is the message of the
  validation error, the JSON text of its issues, which contains the message of every
  issue as a JSON string. When a transform of the schema throws during the validation,
  the call does not invoke the handler either and throws what the transform threw.
\<close>

theorem call_invalid_input:
  "\<not> isEmptySchema (schema (aschema a)) \<Longrightarrow>
     (safeParse (schema (aschema a)) input = INVALID issues \<longrightarrow>
        call a input = ([], Inl (InvalidInputError (zodErrorMessage issues)))
        \<and> ename (InvalidInputError (zodErrorMessage issues)) = ''InvalidInputError''
        \<and> emessage (InvalidInputError (zodErrorMessage issues))
            = stringify 0 (JArray (map issueJson issues))
        \<and> (\<forall>i \<in> set issues.
              str_includes (emessage (InvalidInputError (zodErrorMessage issues)))
                (quote (imessage i))))
     \<and> (safeParse (schema (aschema a)) input = THROWN e \<longrightarrow> call a input = ([], Inl e))"
  by (simp add: call_def InvalidInputError_def zodErrorMessage_includes)
     (simp add: zodErrorMessage_def)

theorem call_invalid_input_witness:
  "\<not> isEmptySchema (ZodObject [(''url'', ZodString)])
   \<and> safeParse (ZodObject [(''url'', ZodString)]) (JObj [(''url'', JNum 5)])
       = INVALID [InvalidType ''string'' ''number'' [''url''] ''Expected string, received number'']
   \<and> call \<lparr>handler = Inr,
            aschema = \<lparr>name = ''go_to_url'', description = ''Navigate'',
                       schema = ZodObject [(''url'', ZodString)]\<rparr>,
            hasIndex = False, needsDelay = True\<rparr>
        (JObj [(''url'', JNum 5)])
       = ([], Inl (JError ''InvalidInputError''
          (''['' @ [CHR 0x0A]
          @ ''  {'' @ [CHR 0x0A]
          @ ''    '' @ [CHR 0x22] @ ''code'' @ [CHR 0x22] @ '': '' @ [CHR 0x22] @ ''invalid_type'' @ [CHR 0x22] @ '','' @ [CHR 0x0A]
          @ ''    '' @ [CHR 0x22] @ ''expected'' @ [CHR 0x22] @ '': '' @ [CHR 0x22] @ ''string'' @ [CHR 0x22] @ '','' @ [CHR 0x0A]
          @ ''    '' @ [CHR 0x22] @ ''received'' @ [CHR 0x22] @ '': '' @ [CHR 0x22] @ ''number'' @ [CHR 0x22] @ '','' @ [CHR 0x0A]
          @ ''    '' @ [CHR 0x22] @ ''path'' @ [CHR 0x22] @ '': ['' @ [CHR 0x0A]
          @ ''      '' @ [CHR 0x22] @ ''url'' @ [CHR 0x22] @ [CHR 0x0A]
          @ ''    ],'' @ [CHR 0x0A]
          @ ''    '' @ [CHR 0x22] @ ''message'' @ [CHR 0x22] @ '': '' @ [CHR 0x22] @ ''Expected string, received number'' @ [CHR 0x22] @ [CHR 0x0A]
          @ ''  }'' @ [CHR 0x0A]
          @ '']'')
          None))
   \<and> \<not> isEmptySchema (ZodObject [(''done'', booleanStringSchema)])
   \<and> call \<lparr>handler = Inr,
            aschema = \<lparr>name = ''done'', description = ''Finish'',
                       schema = ZodObject [(''done'', booleanStringSchema)]\<rparr>,
            hasIndex = False, needsDelay = False\<rparr>
        (JObj [(''done'', JStr ''maybe'')])
       = ([], Inl (JError ''Error''
                     (''Invalid boolean string: '' @ [CHR 0x22] @ ''maybe'' @ [CHR 0x22]) None))"
proof -
  have h1: "\<not> isEmptySchema (ZodObject [(''url'', ZodString)])"
    by (simp add: isEmptySchema_def)
  have h2: "safeParse (ZodObject [(''url'', ZodString)]) (JObj [(''url'', JNum 5)])
       = INVALID [InvalidType ''string'' ''number'' [''url''] ''Expected string, received number'']"
    by (simp add: safeParse_def invalid_type_def)
  have m: "zodErrorMessage
             [InvalidType ''string'' ''number'' [''url''] ''Expected string, received number'']
       = ''['' @ [CHR 0x0A]
          @ ''  {'' @ [CHR 0x0A]
          @ ''    '' @ [CHR 0x22] @ ''code'' @ [CHR 0x22] @ '': '' @ [CHR 0x22] @ ''invalid_type'' @ [CHR 0x22] @ '','' @ [CHR 0x0A]
          @ ''    '' @ [CHR 0x22] @ ''expected'' @ [CHR 0x22] @ '': '' @ [CHR 0x22] @ ''string'' @ [CHR 0x22] @ '','' @ [CHR 0x0A]
          @ ''    '' @ [CHR 0x22] @ ''received'' @ [CHR 0x22] @ '': '' @ [CHR 0x22] @ ''number'' @ [CHR 0x22] @ '','' @ [CHR 0x0A]
          @ ''    '' @ [CHR 0x22] @ ''path'' @ [CHR 0x22] @ '': ['' @ [CHR 0x0A]
          @ ''      '' @ [CHR 0x22] @ ''url'' @ [CHR 0x22] @ [CHR 0x0A]
          @ ''    ],'' @ [CHR 0x0A]
          @ ''    '' @ [CHR 0x22] @ ''message'' @ [CHR 0x22] @ '': '' @ [CHR 0x22] @ ''Expected string, received number'' @ [CHR 0x22] @ [CHR 0x0A]
          @ ''  }'' @ [CHR 0x0A]
          @ '']''"
    by code_simp
  have h3: "\<not> isEmptySchema (ZodObject [(''done'', booleanStringSchema)])"
    by (simp add: isEmptySchema_def)
  have h4: "safeParse (ZodObject [(''done'', booleanStringSchema)])
              (JObj [(''done'', JStr ''maybe'')])
       = THROWN (JError ''Error''
                   (''Invalid boolean string: '' @ [CHR 0x22] @ ''maybe'' @ [CHR 0x22]) None)"
    by code_simp
  show ?thesis
    using h1 h2 h3 h4 m
      call_invalid_input [of "\<lparr>handler = Inr,
            aschema = \<lparr>name = ''go_to_url'', description = ''Navigate'',
                       schema = ZodObject [(''url'', ZodString)]\<rparr>,
            hasIndex = False, needsDelay = True\<rparr>" "JObj [(''url'', JNum 5)]"
            "[InvalidType ''string'' ''number'' [''url''] ''Expected string, received number'']"
            JNull]
      call_invalid_input [of "\<lparr>handler = Inr,
            aschema = \<lparr>name = ''done'', description = ''Finish'',
                       schema = ZodObject [(''done'', booleanStringSchema)]\<rparr>,
            hasIndex = False, needsDelay = False\<rparr>" "JObj [(''done'', JStr ''maybe'')]"
            "[]"
            "JError ''Error''
                   (''Invalid boolean string: '' @ [CHR 0x22] @ ''maybe'' @ [CHR 0x22]) None"]
    by (simp add: InvalidInputError_def)
qed

text \<open>
  C9: for every action whose schema is an object schema with no field, \<open>Action.call\<close>
  ignores its input: it invokes the handler once, with the empty object, and returns what
  the handler returns.
\<close>

theorem call_empty_schema:
  "zodObjectShape (schema (aschema a)) = Some [] \<Longrightarrow>
     call a input = ([JObj []], handler a (JObj []))"
  by (simp add: call_def isEmptySchema_def)

theorem call_empty_schema_witness:
  "zodObjectShape (ZodObject []) = Some []
   \<and> safeParse (ZodObject []) (JStr ''abc'')
       = INVALID [InvalidType ''object'' ''string'' [] ''Expected object, received string'']
   \<and> call \<lparr>handler = (\<lambda>x. Inr (x, ''done'')),
            aschema = \<lparr>name = ''go_back'', description = ''Go back'', schema = ZodObject []\<rparr>,
            hasIndex = False, needsDelay = True\<rparr> (JStr ''abc'')
       = ([JObj []], Inr (JObj [], ''done''))"
  using call_empty_schema [of "\<lparr>handler = (\<lambda>x. Inr (x, ''done'')),
            aschema = \<lparr>name = ''go_back'', description = ''Go back'', schema = ZodObject []\<rparr>,
            hasIndex = False, needsDelay = True\<rparr>" "JStr ''abc''"]
  by (simp add: safeParse_def invalid_type_def)

section \<open>Boolean coercion of planner output fields\<close>

lemma safeParse_booleanString_str:
  "safeParse booleanStringSchema (JStr s) =
     (case booleanStringTransform (JStr s) of Inl e \<Rightarrow> THROWN e | Inr y \<Rightarrow> OK y)"
  by (simp add: safeParse_def booleanStringSchema_def invalid_type_def split: sum.splits)

lemma safeParse_booleanString_bool: "safeParse booleanStringSchema (JBool b) = OK (JBool b)"
  by (simp add: safeParse_def booleanStringSchema_def)

text \<open>The two string cases of the planner test, on the whole output schema.\<close>

lemma planner_test_maybe:
  "parse testPlannerOutputSchema
     (JObj [(''observation'', JStr ''test observation''), (''challenges'', JStr ''none''),
            (''next_steps'', JStr ''next step''), (''final_answer'', JStr ''answer''),
            (''reasoning'', JStr ''reasoning''), (''done'', JStr ''maybe''),
            (''web_task'', JBool False)])
   = Inl (JError ''Error'' (''Invalid boolean string: '' @ [CHR 0x22] @ ''maybe'' @ [CHR 0x22]) None)"
  by code_simp

lemma planner_test_whitespace:
  "parse testPlannerOutputSchema
     (JObj [(''observation'', JStr ''o''), (''challenges'', JStr ''none''),
            (''next_steps'', JStr ''n''), (''final_answer'', JStr ''a''),
            (''reasoning'', JStr ''r''), (''done'', JStr '' true ''),
            (''web_task'', JStr '' false '')])
   = Inr (JObj [(''observation'', JStr ''o''), (''challenges'', JStr ''none''),
                (''done'', JBool True),
            (''next_steps'', JStr ''n''), (''final_answer'', JStr ''a''),
            (''reasoning'', JStr ''r''), 
            (''web_task'', JBool False)])"
  by code_simp

text \<open>
  C6: a string that is \<open>true\<close> after lower-casing and trimming parses to the boolean
  true, one that is \<open>false\<close> parses to the boolean false, a boolean passes through
  unchanged, and every other string makes \<open>parse\<close> throw the error of the transform,
  whose message quotes the string; no default value is returned.
\<close>

theorem boolean_coercion:
  "(trim (toLowerCase s) = ''true'' \<longrightarrow> parse booleanStringSchema (JStr s) = Inr (JBool True))
   \<and> (trim (toLowerCase s) = ''false'' \<longrightarrow> parse booleanStringSchema (JStr s) = Inr (JBool False))
   \<and> parse booleanStringSchema (JBool b) = Inr (JBool b)
   \<and> (trim (toLowerCase s) \<noteq> ''true'' \<and> trim (toLowerCase s) \<noteq> ''false'' \<longrightarrow>
        parse booleanStringSchema (JStr s)
        = Inl (Error (''Invalid boolean string: '' @ [CHR 0x22] @ s @ [CHR 0x22])))"
  by (simp add: parse_def safeParse_booleanString_str safeParse_booleanString_bool
      booleanStringTransform_def Let_def)

theorem boolean_coercion_witness:
  "parse booleanStringSchema (JStr ''true'') = Inr (JBool True)
   \<and> parse booleanStringSchema (JStr ''True'') = Inr (JBool True)
   \<and> parse booleanStringSchema (JStr ''TRUE'') = Inr (JBool True)
   \<and> parse booleanStringSchema (JStr '' true '') = Inr (JBool True)
   \<and> parse booleanStringSchema (JStr ''false'') = Inr (JBool False)
   \<and> parse booleanStringSchema (JStr '' FALSE '') = Inr (JBool False)
   \<and> parse booleanStringSchema (JBool True) = Inr (JBool True)
   \<and> parse booleanStringSchema (JStr ''maybe'')
       = Inl (JError ''Error'' (''Invalid boolean string: '' @ [CHR 0x22] @ ''maybe'' @ [CHR 0x22]) None)"
proof -
  have t: "trim (toLowerCase ''true'') = ''true''" "trim (toLowerCase ''True'') = ''true''"
    "trim (toLowerCase ''TRUE'') = ''true''" "trim (toLowerCase '' true '') = ''true''"
    by code_simp+
  have f: "trim (toLowerCase ''false'') = ''false''" "trim (toLowerCase '' FALSE '') = ''false''"
    by code_simp+
  have m: "trim (toLowerCase ''maybe'') = ''maybe''"
    by code_simp
  show ?thesis
    using t f m boolean_coercion [of "''true''" True] boolean_coercion [of "''True''" True]
      boolean_coercion [of "''TRUE''" True] boolean_coercion [of "'' true ''" True]
      boolean_coercion [of "''false''" True] boolean_coercion [of "'' FALSE ''" True]
      boolean_coercion [of "''maybe''" True]
    by (simp add: Error_def)
qed

section \<open>The model invocation layer\<close>

lemma structuredCatch_aborted:
  "isAbortedError e \<Longrightarrow> structuredCatch U a e response = ([], Inl e)"
  by (simp add: structuredCatch_def)

lemma invoke_structured_throw:
  "withStructuredOutput a \<Longrightarrow>
   structuredInvoke llm (stripImagesFromMessages P a msgs) = Inl e \<Longrightarrow>
   invoke P U llm a msgs =
     (StructuredCall (stripImagesFromMessages P a msgs) # fst (structuredCatch U a e None),
      snd (structuredCatch U a e None))"
  by (simp add: invoke_def Let_def split: prod.splits)

lemma invoke_plain_throw:
  "\<not> withStructuredOutput a \<Longrightarrow>
   plainInvoke llm (convertInputMessages U (stripImagesFromMessages P a msgs) (modelName a)) = Inl e \<Longrightarrow>
   invoke P U llm a msgs =
     ([PlainCall (convertInputMessages U (stripImagesFromMessages P a msgs) (modelName a))], Inl e)"
  by (simp add: invoke_def Let_def)


lemma fixed_error_not_aborted:
  "\<not> isAbortedError (Error ''Could not parse response with structured output'')"
  by (simp add: Error_def)

lemma catch_fixed_error:
  "structuredCatch U a (Error ''Could not parse response with structured output'') r
   = ([], Inl (Error (''Failed to invoke '' @ modelName a @ '' with structured output: ''
                      @ [CHR 0x0A] @ ''Could not parse response with structured output'')))"
  by (simp add: structuredCatch_def messageOrString_def Error_def)


lemma invoke_structured:
  "withStructuredOutput a \<Longrightarrow>
   invoke P U llm a msgs =
     (case structuredInvoke llm (stripImagesFromMessages P a msgs) of
        Inl err \<Rightarrow>
          (StructuredCall (stripImagesFromMessages P a msgs)
             # fst (structuredCatch U a err None),
           snd (structuredCatch U a err None))
      | Inr response \<Rightarrow>
          if truthy (parsed response)
          then ([StructuredCall (stripImagesFromMessages P a msgs)], Inr (parsed response))
          else (StructuredCall (stripImagesFromMessages P a msgs)
                  # fst (structuredCatch U a
                           (Error ''Could not parse response with structured output'')
                           (Some response)),
                snd (structuredCatch U a
                       (Error ''Could not parse response with structured output'')
                       (Some response))))"
  by (simp add: invoke_def Let_def split: prod.splits sum.splits)





text \<open>
  C3: an error named \<open>AbortError\<close> whose message contains \<open>403\<close> satisfies
  \<open>isAbortedError\<close> and is classified as aborted by the priority order; the \<open>catch\<close>
  block of the structured path rethrows it before it looks at the message, whatever the
  response, and an invocation whose model call throws it throws the same error.
\<close>

theorem abort_preempts_forbidden:
  "str_includes msg ''403'' \<Longrightarrow>
     isAbortedError (JError ''AbortError'' msg st)
     \<and> classify (JError ''AbortError'' msg st) = Aborted
     \<and> structuredCatch U a (JError ''AbortError'' msg st) response
         = ([], Inl (JError ''AbortError'' msg st))
     \<and> (withStructuredOutput a
          \<and> structuredInvoke llm (stripImagesFromMessages P a msgs)
              = Inl (JError ''AbortError'' msg st)
         \<longrightarrow> invoke P U llm a msgs
              = ([StructuredCall (stripImagesFromMessages P a msgs)],
                 Inl (JError ''AbortError'' msg st)))
     \<and> (\<not> withStructuredOutput a
          \<and> plainInvoke llm
                (convertInputMessages U (stripImagesFromMessages P a msgs) (modelName a))
              = Inl (JError ''AbortError'' msg st)
         \<longrightarrow> snd (invoke P U llm a msgs) = Inl (JError ''AbortError'' msg st))"
  by (simp add: classify_def structuredCatch_def invoke_def Let_def)

theorem abort_preempts_forbidden_witness:
  "str_includes ''Request failed with status 403'' ''403''
   \<and> isForbiddenError abortError
   \<and> isAbortedError abortError
   \<and> classify abortError = Aborted
   \<and> invoke exampleProviders exampleUtils cancelledModel structuredAgent []
       = ([StructuredCall []], Inl abortError)"
proof -
  have h: "str_includes ''Request failed with status 403'' ''403''" by simp
  have f: "isForbiddenError abortError" by (simp add: abortError_def)
  have s: "stripImagesFromMessages exampleProviders structuredAgent [] = []"
    by (simp add: stripImagesFromMessages_def)
  show ?thesis
    using h f s
      abort_preempts_forbidden [OF h, of None exampleUtils structuredAgent None
        cancelledModel exampleProviders "[]"]
    by (simp add: abortError_def cancelledModel_def structuredAgent_def)
qed

text \<open>
  C4: when the model call of an invocation throws an error that \<open>isAbortedError\<close>
  accepts, \<open>invoke\<close> throws that same error, no manual parse takes place, and the
  model call is the only event of the invocation.
\<close>

theorem aborted_call_propagates:
  "isAbortedError e \<Longrightarrow>
   (if withStructuredOutput a
    then structuredInvoke llm (stripImagesFromMessages P a msgs) = Inl e
    else plainInvoke llm
           (convertInputMessages U (stripImagesFromMessages P a msgs) (modelName a)) = Inl e) \<Longrightarrow>
     snd (invoke P U llm a msgs) = Inl e
     \<and> (\<forall>c. ManualParse c \<notin> set (fst (invoke P U llm a msgs)))
     \<and> length (fst (invoke P U llm a msgs)) = 1"
proof (cases "withStructuredOutput a")
  case True
  assume ab: "isAbortedError e"
  assume "if withStructuredOutput a
    then structuredInvoke llm (stripImagesFromMessages P a msgs) = Inl e
    else plainInvoke llm
           (convertInputMessages U (stripImagesFromMessages P a msgs) (modelName a)) = Inl e"
  with True have "structuredInvoke llm (stripImagesFromMessages P a msgs) = Inl e" by simp
  from invoke_structured_throw [OF True this, of U] show ?thesis
    by (simp add: structuredCatch_aborted [OF ab])
next
  case False
  assume "if withStructuredOutput a
    then structuredInvoke llm (stripImagesFromMessages P a msgs) = Inl e
    else plainInvoke llm
           (convertInputMessages U (stripImagesFromMessages P a msgs) (modelName a)) = Inl e"
  with False have "plainInvoke llm
           (convertInputMessages U (stripImagesFromMessages P a msgs) (modelName a)) = Inl e"
    by simp
  from invoke_plain_throw [OF False this] show ?thesis by simp
qed

theorem aborted_call_propagates_witness:
  "isAbortedError abortError
   \<and> invoke exampleProviders exampleUtils cancelledModel structuredAgent []
       = ([StructuredCall []], Inl abortError)
   \<and> invoke exampleProviders exampleUtils cancelledModel manualAgent []
       = ([PlainCall []], Inl abortError)"
proof -
  have ab: "isAbortedError abortError" by (simp add: abortError_def)
  have s: "stripImagesFromMessages exampleProviders structuredAgent [] = []"
    "stripImagesFromMessages exampleProviders manualAgent [] = []"
    by (simp_all add: stripImagesFromMessages_def)
  have c1: "if withStructuredOutput structuredAgent
    then structuredInvoke cancelledModel
           (stripImagesFromMessages exampleProviders structuredAgent []) = Inl abortError
    else plainInvoke cancelledModel
           (convertInputMessages exampleUtils
              (stripImagesFromMessages exampleProviders structuredAgent [])
              (modelName structuredAgent)) = Inl abortError"
    by (simp add: structuredAgent_def cancelledModel_def)
  have c2: "if withStructuredOutput manualAgent
    then structuredInvoke cancelledModel
           (stripImagesFromMessages exampleProviders manualAgent []) = Inl abortError
    else plainInvoke cancelledModel
           (convertInputMessages exampleUtils
              (stripImagesFromMessages exampleProviders manualAgent [])
              (modelName manualAgent)) = Inl abortError"
    by (simp add: manualAgent_def cancelledModel_def)
  have i1: "invoke exampleProviders exampleUtils cancelledModel structuredAgent []
       = ([StructuredCall []], Inl abortError)"
    unfolding invoke_def Let_def s
    by (simp add: cancelledModel_def structuredCatch_def ab) (simp add: structuredAgent_def)
  have i2: "invoke exampleProviders exampleUtils cancelledModel manualAgent []
       = ([PlainCall []], Inl abortError)"
    unfolding invoke_def Let_def s
    by (simp add: cancelledModel_def exampleUtils_def) (simp add: manualAgent_def)
  show ?thesis
    using ab i1 i2 aborted_call_propagates [OF ab c1] aborted_call_propagates [OF ab c2]
    by simp
qed




section \<open>The structured path never reaches manual recovery\<close>

text \<open>
  The recovery branch of the structured \<open>catch\<close> block needs a message that contains
  \<open>is not valid JSON\<close> and a response. When the call threw, the response is still
  undefined; when the call returned, the only error is the fixed one, whose message does
  not match. So the only event of a structured invocation is the model call.
\<close>

lemma catch_no_response_no_manual_parse: "fst (structuredCatch U a err None) = []"
  by (simp add: structuredCatch_def Let_def split: sum.splits)

lemma invoke_structured_no_manual_parse:
  "withStructuredOutput a \<Longrightarrow>
   fst (invoke P U llm a msgs) = [StructuredCall (stripImagesFromMessages P a msgs)]"
  by (simp add: invoke_structured catch_fixed_error catch_no_response_no_manual_parse
      split: sum.splits)

section \<open>Vision support and image stripping\<close>

lemma supportsVision_cases:
  assumes "supportsVision P a"
  shows "((provider a = Gemini P \<or> chatModelLibrary a = ''ChatGoogleGenerativeAI'')
          \<and> ((str_includes (toLowerCase (modelName a)) ''flash''
                \<and> str_includes (toLowerCase (modelName a)) ''2.'')
               \<or> (str_includes (toLowerCase (modelName a)) ''pro''
                   \<and> str_includes (toLowerCase (modelName a)) ''2.'')))
       \<or> ((provider a = OpenAI P \<or> chatModelLibrary a = ''ChatOpenAI'')
           \<and> (str_includes (toLowerCase (modelName a)) ''gpt-4o''
                \<or> str_includes (toLowerCase (modelName a)) ''gpt-5''
                \<or> str_includes (toLowerCase (modelName a)) ''vision''
                \<or> str_includes (toLowerCase (modelName a)) ''gpt-4-turbo''))
       \<or> ((provider a = Anthropic P \<or> chatModelLibrary a = ''ChatAnthropic'')
           \<and> (str_includes (toLowerCase (modelName a)) ''claude-3''
                \<or> str_includes (toLowerCase (modelName a)) ''claude-4''))"
proof -
  define L where "L = toLowerCase (modelName a)"
  define gem where "gem \<longleftrightarrow> provider a = Gemini P \<or> chatModelLibrary a = ''ChatGoogleGenerativeAI''"
  define oai where "oai \<longleftrightarrow> provider a = OpenAI P \<or> chatModelLibrary a = ''ChatOpenAI''"
  define ant where "ant \<longleftrightarrow> provider a = Anthropic P \<or> chatModelLibrary a = ''ChatAnthropic''"
  have sv: "supportsVision P a =
     (if gem then
           (if str_includes L ''preview'' then False
            else if str_includes L ''flash'' \<and> str_includes L ''2.'' then True
            else if str_includes L ''pro'' \<and> str_includes L ''2.'' then True
            else False)
         else if oai then
           (if str_includes L ''gpt-4o'' \<or> str_includes L ''gpt-5'' then True
            else if str_includes L ''vision'' then True
            else if str_includes L ''gpt-4-turbo'' then True
            else False)
         else if ant then
           (if str_includes L ''claude-3'' \<or> str_includes L ''claude-4'' then True
            else False)
         else False)"
    unfolding supportsVision_def Let_def L_def gem_def oai_def ant_def by simp
  from assms have "(gem \<and> ((str_includes L ''flash'' \<and> str_includes L ''2.'')
               \<or> (str_includes L ''pro'' \<and> str_includes L ''2.'')))
       \<or> (oai \<and> (str_includes L ''gpt-4o'' \<or> str_includes L ''gpt-5''
                \<or> str_includes L ''vision'' \<or> str_includes L ''gpt-4-turbo''))
       \<or> (ant \<and> (str_includes L ''claude-3'' \<or> str_includes L ''claude-4''))"
    unfolding sv by (meson)
  then show ?thesis unfolding L_def gem_def oai_def ant_def .
qed

lemma no_pattern_no_vision: "\<not> matchesVisionPattern P a \<Longrightarrow> \<not> supportsVision P a"
proof
  assume nm: "\<not> matchesVisionPattern P a" and "supportsVision P a"
  from supportsVision_cases [OF this(2)] have "matchesVisionPattern P a"
    unfolding matchesVisionPattern_def visionRuleTable_def matchesRule_def
    by (elim disjE conjE) simp_all
  with nm show False by contradiction
qed

lemma strip_no_vision:
  "\<not> supportsVision P a \<Longrightarrow>
   stripImagesFromMessages P a msgs =
     map (\<lambda>m. case content m of
                 ArrayContent items \<Rightarrow> m\<lparr>content := StringContent (textOf items)\<rparr>
               | StringContent s \<Rightarrow> m) msgs"
  by (simp add: stripImagesFromMessages_def textOf_def Let_def split: MessageContent.splits)

text \<open>
  C8: when the provider, the client library and the model name match no row of the
  vision rule table, \<open>supportsVision\<close> is false, and \<open>stripImagesFromMessages\<close> keeps
  the number and order of the messages, leaves a message with string content as it is,
  replaces an array content by the texts of its text parts joined by line feeds, and so
  returns no message with an array content.
\<close>

theorem unknown_model_strips_images:
  "\<not> matchesVisionPattern P a \<Longrightarrow>
     supportsVision P a = False
     \<and> length (stripImagesFromMessages P a msgs) = length msgs
     \<and> (\<forall>i < length msgs.
           stripImagesFromMessages P a msgs ! i =
             (case content (msgs ! i) of
                ArrayContent items \<Rightarrow> (msgs ! i)\<lparr>content := StringContent (textOf items)\<rparr>
              | StringContent s \<Rightarrow> msgs ! i))
     \<and> (\<forall>m \<in> set (stripImagesFromMessages P a msgs). \<exists>s. content m = StringContent s)"
proof -
  assume "\<not> matchesVisionPattern P a"
  then have nv: "\<not> supportsVision P a" by (rule no_pattern_no_vision)
  note st = strip_no_vision [OF nv, of msgs]
  have 1: "length (stripImagesFromMessages P a msgs) = length msgs" by (simp add: st)
  have 2: "\<forall>i < length msgs.
           stripImagesFromMessages P a msgs ! i =
             (case content (msgs ! i) of
                ArrayContent items \<Rightarrow> (msgs ! i)\<lparr>content := StringContent (textOf items)\<rparr>
              | StringContent s \<Rightarrow> msgs ! i)"
    by (simp add: st)
  have 3: "\<forall>m \<in> set (stripImagesFromMessages P a msgs). \<exists>s. content m = StringContent s"
    by (auto simp: st split: MessageContent.splits)
  from nv 1 2 3 show ?thesis by blast
qed

theorem unknown_model_strips_images_witness:
  "\<not> matchesVisionPattern exampleProviders unknownAgent
   \<and> supportsVision exampleProviders unknownAgent = False
   \<and> stripImagesFromMessages exampleProviders unknownAgent [imageMessage]
       = [\<lparr>message_class = ''HumanMessage'',
           content = StringContent (''Current page:'' @ [CHR 0x0A] @ ''What next?'')\<rparr>]"
proof -
  have h: "\<not> matchesVisionPattern exampleProviders unknownAgent"
    by (simp add: matchesVisionPattern_def visionRuleTable_def matchesRule_def
        exampleProviders_def unknownAgent_def)
  have t: "content imageMessage = ArrayContent
        [\<lparr>item_type = ''text'', item_text = Some ''Current page:'', item_image_url = None\<rparr>,
         \<lparr>item_type = ''image_url'', item_text = None,
          item_image_url = Some ''data:image/jpeg;base64,AAAA''\<rparr>,
         \<lparr>item_type = ''text'', item_text = Some ''What next?'', item_image_url = None\<rparr>]"
    by (simp add: imageMessage_def)
  have x: "textOf
        [\<lparr>item_type = ''text'', item_text = Some ''Current page:'', item_image_url = None\<rparr>,
         \<lparr>item_type = ''image_url'', item_text = None,
          item_image_url = Some ''data:image/jpeg;base64,AAAA''\<rparr>,
         \<lparr>item_type = ''text'', item_text = Some ''What next?'', item_image_url = None\<rparr>]
        = ''Current page:'' @ [CHR 0x0A] @ ''What next?''"
    by (simp add: textOf_def)
  from unknown_model_strips_images [OF h, of "[imageMessage]"]
  have sv: "supportsVision exampleProviders unknownAgent = False"
    and len: "length (stripImagesFromMessages exampleProviders unknownAgent [imageMessage]) = 1"
    and nth: "stripImagesFromMessages exampleProviders unknownAgent [imageMessage] ! 0
       = imageMessage\<lparr>content := StringContent (''Current page:'' @ [CHR 0x0A] @ ''What next?'')\<rparr>"
    by (simp_all add: t x)
  from len nth have "stripImagesFromMessages exampleProviders unknownAgent [imageMessage]
       = [imageMessage\<lparr>content := StringContent (''Current page:'' @ [CHR 0x0A] @ ''What next?'')\<rparr>]"
    by (cases "stripImagesFromMessages exampleProviders unknownAgent [imageMessage]") simp_all
  with h sv show ?thesis by (simp add: imageMessage_def)
qed

section \<open>The size bounds of the memory store\<close>

lemma length_slice0: "0 \<le> n \<Longrightarrow> int (length (slice0 xs n)) \<le> n"
  by (simp add: slice0_def)

lemma getSettings_addPattern: "getSettings (addPattern uuid now m p) = getSettings m"
  by (simp add: addPattern_def getSettings_def Let_def split: option.splits)

lemma getSettings_setPreference: "getSettings (setPreference now m q) = getSettings m"
  by (simp add: setPreference_def getSettings_def Let_def split: option.splits)

lemma preferences_addPattern: "preferences (addPattern uuid now m p) = preferences m"
  by (simp add: addPattern_def Let_def split: option.splits)

lemma patterns_setPreference: "patterns (setPreference now m q) = patterns m"
  by (simp add: setPreference_def Let_def)

lemma limit_length:
  assumes "0 \<le> n"
  shows "length (if int (length xs) > n then slice0 (sortDescBy k xs) n else xs)
         = min (length xs) (nat n)"
  using assms by (auto simp: slice0_def sortDescBy_def)

lemma limit_fits:
  "int (length xs) \<le> n \<Longrightarrow>
   (if int (length xs) > n then slice0 (sortDescBy k xs) n else xs) = xs"
  by simp

lemma limit_keeps_recent:
  assumes "0 \<le> n"
  shows "\<exists>dropped.
           mset ((if int (length xs) > n then slice0 (sortDescBy k xs) n else xs) @ dropped)
             = mset xs
           \<and> (\<forall>x \<in> set (if int (length xs) > n then slice0 (sortDescBy k xs) n else xs).
                 \<forall>y \<in> set dropped. k y \<le> k x)"
proof (cases "int (length xs) > n")
  case False
  then have "mset ((if int (length xs) > n then slice0 (sortDescBy k xs) n else xs) @ [])
             = mset xs
           \<and> (\<forall>x \<in> set (if int (length xs) > n then slice0 (sortDescBy k xs) n else xs).
                 \<forall>y \<in> set []. k y \<le> k x)"
    by simp
  then show ?thesis by blast
next
  case True
  let ?s = "sortDescBy k xs"
  have sl: "slice0 ?s n = take (nat n) ?s" using assms by (simp add: slice0_def)
  have "sorted (map (\<lambda>x. - k x) ?s)" unfolding sortDescBy_def by (rule sorted_sort_key)
  then have "sorted (map (\<lambda>x. - k x) (take (nat n) ?s) @ map (\<lambda>x. - k x) (drop (nat n) ?s))"
    by (metis append_take_drop_id map_append)
  then have ord: "\<forall>x \<in> set (take (nat n) ?s). \<forall>y \<in> set (drop (nat n) ?s). k y \<le> k x"
    by (auto simp: sorted_append)
  have "mset (take (nat n) ?s @ drop (nat n) ?s) = mset xs"
    by (simp add: sortDescBy_def)
  with ord True sl have
    "mset ((if int (length xs) > n then slice0 (sortDescBy k xs) n else xs) @ drop (nat n) ?s)
             = mset xs
           \<and> (\<forall>x \<in> set (if int (length xs) > n then slice0 (sortDescBy k xs) n else xs).
                 \<forall>y \<in> set (drop (nat n) ?s). k y \<le> k x)"
    by simp
  then show ?thesis by blast
qed

lemma addPattern_new:
  assumes "findIndex (\<lambda>x. domain x = in_domain p \<and> taskType x = in_taskType p
                         \<and> pattern_description x = in_description p) (patterns m) = None"
  shows "patterns (addPattern uuid now m p)
        = (if int (length (patterns m @ [newPattern uuid now p])) > maxPatterns (getSettings m)
           then slice0 (sortDescBy lastUsed (patterns m @ [newPattern uuid now p]))
                  (maxPatterns (getSettings m))
           else patterns m @ [newPattern uuid now p])"
  using assms by (simp add: addPattern_def Let_def)

lemma addPattern_existing:
  assumes "findIndex (\<lambda>x. domain x = in_domain p \<and> taskType x = in_taskType p
                         \<and> pattern_description x = in_description p) (patterns m) = Some i"
  shows "patterns (addPattern uuid now m p)
        = (patterns m)[i := (patterns m ! i)
             \<lparr>successCount := successCount (patterns m ! i) + 1, lastUsed := now 0\<rparr>]"
  using assms by (simp add: addPattern_def Let_def)

lemma setPreference_new:
  assumes "findIndex (\<lambda>x. key x = in_key q) (preferences m) = None"
  shows "preferences (setPreference now m q)
        = (if int (length (preferences m @ [newPref now q])) > maxPreferences (getSettings m)
           then slice0 (sortDescBy lastUpdated (preferences m @ [newPref now q]))
                  (maxPreferences (getSettings m))
           else preferences m @ [newPref now q])"
  using assms by (simp add: setPreference_def Let_def)

lemma setPreference_existing:
  assumes "findIndex (\<lambda>x. key x = in_key q) (preferences m) = Some i"
    and "int (length (preferences m)) \<le> maxPreferences (getSettings m)"
  shows "preferences (setPreference now m q) = (preferences m)[i := newPref now q]"
  using assms by (simp add: setPreference_def Let_def)

lemma patterns_addPattern_bound:
  assumes "int (length (patterns m)) \<le> maxPatterns (getSettings m)"
  shows "int (length (patterns (addPattern uuid now m p))) \<le> maxPatterns (getSettings m)"
proof -
  from assms have nn: "0 \<le> maxPatterns (getSettings m)" by linarith
  show ?thesis
  proof (cases "findIndex (\<lambda>x. domain x = in_domain p \<and> taskType x = in_taskType p
                          \<and> pattern_description x = in_description p) (patterns m)")
    case None
    show ?thesis
      unfolding addPattern_new [OF None] limit_length [OF nn] using nn by simp
  next
    case (Some i)
    show ?thesis unfolding addPattern_existing [OF Some] using assms by simp
  qed
qed

lemma preferences_setPreference_bound:
  assumes "int (length (preferences m)) \<le> maxPreferences (getSettings m)"
  shows "int (length (preferences (setPreference now m q))) \<le> maxPreferences (getSettings m)"
proof -
  from assms have nn: "0 \<le> maxPreferences (getSettings m)" by linarith
  show ?thesis
  proof (cases "findIndex (\<lambda>x. key x = in_key q) (preferences m)")
    case None
    show ?thesis
      unfolding setPreference_new [OF None] limit_length [OF nn] using nn by simp
  next
    case (Some i)
    show ?thesis unfolding setPreference_existing [OF Some assms] using assms by simp
  qed
qed

text \<open>
  C10: from a memory whose patterns and preferences respect the limits of its settings,
  \<open>addPattern\<close> and \<open>setPreference\<close> store a memory that respects them too. An entry that
  exists is replaced in place. A new entry is appended, and the stored list has the
  length of the old list plus one, cut to the limit: when that fits, it is the old list
  followed by the new entry; in every case the stored list together with the dropped
  entries is a permutation of the old list with the new entry, and no dropped entry was
  used or updated later than a stored one.
\<close>

theorem memory_bounds_preserved:
  assumes "int (length (patterns m)) \<le> maxPatterns (getSettings m)"
    and "int (length (preferences m)) \<le> maxPreferences (getSettings m)"
  shows
    "int (length (patterns (addPattern uuid now m p)))
       \<le> maxPatterns (getSettings (addPattern uuid now m p))
     \<and> int (length (preferences (addPattern uuid now m p)))
       \<le> maxPreferences (getSettings (addPattern uuid now m p))
     \<and> int (length (patterns (setPreference now m q)))
       \<le> maxPatterns (getSettings (setPreference now m q))
     \<and> int (length (preferences (setPreference now m q)))
       \<le> maxPreferences (getSettings (setPreference now m q))
     \<and> preferences (addPattern uuid now m p) = preferences m
     \<and> patterns (setPreference now m q) = patterns m
     \<and> (\<forall>i. findIndex (\<lambda>x. domain x = in_domain p \<and> taskType x = in_taskType p
                            \<and> pattern_description x = in_description p) (patterns m) = Some i
        \<longrightarrow> patterns (addPattern uuid now m p)
            = (patterns m)[i := (patterns m ! i)
                 \<lparr>successCount := successCount (patterns m ! i) + 1, lastUsed := now 0\<rparr>])
     \<and> (findIndex (\<lambda>x. domain x = in_domain p \<and> taskType x = in_taskType p
                         \<and> pattern_description x = in_description p) (patterns m) = None
        \<longrightarrow> length (patterns (addPattern uuid now m p))
              = min (length (patterns m) + 1) (nat (maxPatterns (getSettings m)))
            \<and> (int (length (patterns m)) + 1 \<le> maxPatterns (getSettings m)
               \<longrightarrow> patterns (addPattern uuid now m p)
                   = patterns m @ [newPattern uuid now p])
            \<and> (\<exists>dropped.
                 mset (patterns (addPattern uuid now m p) @ dropped)
                   = mset (patterns m @ [newPattern uuid now p])
                 \<and> (\<forall>x \<in> set (patterns (addPattern uuid now m p)).
                       \<forall>y \<in> set dropped. lastUsed y \<le> lastUsed x)))
     \<and> (\<forall>i. findIndex (\<lambda>x. key x = in_key q) (preferences m) = Some i
        \<longrightarrow> preferences (setPreference now m q) = (preferences m)[i := newPref now q])
     \<and> (findIndex (\<lambda>x. key x = in_key q) (preferences m) = None
        \<longrightarrow> length (preferences (setPreference now m q))
              = min (length (preferences m) + 1) (nat (maxPreferences (getSettings m)))
            \<and> (int (length (preferences m)) + 1 \<le> maxPreferences (getSettings m)
               \<longrightarrow> preferences (setPreference now m q)
                   = preferences m @ [newPref now q])
            \<and> (\<exists>dropped.
                 mset (preferences (setPreference now m q) @ dropped)
                   = mset (preferences m @ [newPref now q])
                 \<and> (\<forall>x \<in> set (preferences (setPreference now m q)).
                       \<forall>y \<in> set dropped. lastUpdated y \<le> lastUpdated x)))"
proof -
  from assms have nn: "0 \<le> maxPatterns (getSettings m)" "0 \<le> maxPreferences (getSettings m)"
    by linarith+
  have 1: "int (length (patterns (addPattern uuid now m p)))
       \<le> maxPatterns (getSettings (addPattern uuid now m p))"
    using patterns_addPattern_bound [OF assms(1)] by (simp add: getSettings_addPattern)
  have 2: "int (length (preferences (addPattern uuid now m p)))
       \<le> maxPreferences (getSettings (addPattern uuid now m p))"
    using assms(2) by (simp add: getSettings_addPattern preferences_addPattern)
  have 3: "int (length (patterns (setPreference now m q)))
       \<le> maxPatterns (getSettings (setPreference now m q))"
    using assms(1) by (simp add: getSettings_setPreference patterns_setPreference)
  have 4: "int (length (preferences (setPreference now m q)))
       \<le> maxPreferences (getSettings (setPreference now m q))"
    using preferences_setPreference_bound [OF assms(2)] by (simp add: getSettings_setPreference)
  have 5: "\<forall>i. findIndex (\<lambda>x. domain x = in_domain p \<and> taskType x = in_taskType p
                            \<and> pattern_description x = in_description p) (patterns m) = Some i
        \<longrightarrow> patterns (addPattern uuid now m p)
            = (patterns m)[i := (patterns m ! i)
                 \<lparr>successCount := successCount (patterns m ! i) + 1, lastUsed := now 0\<rparr>]"
    using addPattern_existing by blast
  have 6: "findIndex (\<lambda>x. domain x = in_domain p \<and> taskType x = in_taskType p
                         \<and> pattern_description x = in_description p) (patterns m) = None
        \<longrightarrow> length (patterns (addPattern uuid now m p))
              = min (length (patterns m) + 1) (nat (maxPatterns (getSettings m)))
            \<and> (int (length (patterns m)) + 1 \<le> maxPatterns (getSettings m)
               \<longrightarrow> patterns (addPattern uuid now m p)
                   = patterns m @ [newPattern uuid now p])
            \<and> (\<exists>dropped.
                 mset (patterns (addPattern uuid now m p) @ dropped)
                   = mset (patterns m @ [newPattern uuid now p])
                 \<and> (\<forall>x \<in> set (patterns (addPattern uuid now m p)).
                       \<forall>y \<in> set dropped. lastUsed y \<le> lastUsed x))"
  proof
    assume n: "findIndex (\<lambda>x. domain x = in_domain p \<and> taskType x = in_taskType p
                         \<and> pattern_description x = in_description p) (patterns m) = None"
    note e = addPattern_new [OF n, of uuid now]
    have a: "length (patterns (addPattern uuid now m p))
              = min (length (patterns m) + 1) (nat (maxPatterns (getSettings m)))"
      unfolding e limit_length [OF nn(1)] by simp
    have b: "int (length (patterns m)) + 1 \<le> maxPatterns (getSettings m)
               \<longrightarrow> patterns (addPattern uuid now m p)
                   = patterns m @ [newPattern uuid now p]"
      unfolding e by simp
    have c: "\<exists>dropped.
                 mset (patterns (addPattern uuid now m p) @ dropped)
                   = mset (patterns m @ [newPattern uuid now p])
                 \<and> (\<forall>x \<in> set (patterns (addPattern uuid now m p)).
                       \<forall>y \<in> set dropped. lastUsed y \<le> lastUsed x)"
      unfolding e by (rule limit_keeps_recent [OF nn(1)])
    from a b c show "length (patterns (addPattern uuid now m p))
              = min (length (patterns m) + 1) (nat (maxPatterns (getSettings m)))
            \<and> (int (length (patterns m)) + 1 \<le> maxPatterns (getSettings m)
               \<longrightarrow> patterns (addPattern uuid now m p)
                   = patterns m @ [newPattern uuid now p])
            \<and> (\<exists>dropped.
                 mset (patterns (addPattern uuid now m p) @ dropped)
                   = mset (patterns m @ [newPattern uuid now p])
                 \<and> (\<forall>x \<in> set (patterns (addPattern uuid now m p)).
                       \<forall>y \<in> set dropped. lastUsed y \<le> lastUsed x))"
      by blast
  qed
  have 7: "\<forall>i. findIndex (\<lambda>x. key x = in_key q) (preferences m) = Some i
        \<longrightarrow> preferences (setPreference now m q) = (preferences m)[i := newPref now q]"
    using setPreference_existing [OF _ assms(2)] by blast
  have 8: "findIndex (\<lambda>x. key x = in_key q) (preferences m) = None
        \<longrightarrow> length (preferences (setPreference now m q))
              = min (length (preferences m) + 1) (nat (maxPreferences (getSettings m)))
            \<and> (int (length (preferences m)) + 1 \<le> maxPreferences (getSettings m)
               \<longrightarrow> preferences (setPreference now m q)
                   = preferences m @ [newPref now q])
            \<and> (\<exists>dropped.
                 mset (preferences (setPreference now m q) @ dropped)
                   = mset (preferences m @ [newPref now q])
                 \<and> (\<forall>x \<in> set (preferences (setPreference now m q)).
                       \<forall>y \<in> set dropped. lastUpdated y \<le> lastUpdated x))"
  proof
    assume n: "findIndex (\<lambda>x. key x = in_key q) (preferences m) = None"
    note e = setPreference_new [OF n, of now]
    have a: "length (preferences (setPreference now m q))
              = min (length (preferences m) + 1) (nat (maxPreferences (getSettings m)))"
      unfolding e limit_length [OF nn(2)] by simp
    have b: "int (length (preferences m)) + 1 \<le> maxPreferences (getSettings m)
               \<longrightarrow> preferences (setPreference now m q)
                   = preferences m @ [newPref now q]"
      unfolding e by simp
    have c: "\<exists>dropped.
                 mset (preferences (setPreference now m q) @ dropped)
                   = mset (preferences m @ [newPref now q])
                 \<and> (\<forall>x \<in> set (preferences (setPreference now m q)).
                       \<forall>y \<in> set dropped. lastUpdated y \<le> lastUpdated x)"
      unfolding e by (rule limit_keeps_recent [OF nn(2)])
    from a b c show "length (preferences (setPreference now m q))
              = min (length (preferences m) + 1) (nat (maxPreferences (getSettings m)))
            \<and> (int (length (preferences m)) + 1 \<le> maxPreferences (getSettings m)
               \<longrightarrow> preferences (setPreference now m q)
                   = preferences m @ [newPref now q])
            \<and> (\<exists>dropped.
                 mset (preferences (setPreference now m q) @ dropped)
                   = mset (preferences m @ [newPref now q])
                 \<and> (\<forall>x \<in> set (preferences (setPreference now m q)).
                       \<forall>y \<in> set dropped. lastUpdated y \<le> lastUpdated x))"
      by blast
  qed
  from 1 2 3 4 5 6 7 8 preferences_addPattern [of uuid now m p]
    patterns_setPreference [of now m q]
  show ?thesis by blast
qed

theorem memory_bounds_preserved_witness:
  "int (length (patterns exampleMemory)) \<le> maxPatterns (getSettings exampleMemory)
   \<and> int (length (preferences exampleMemory)) \<le> maxPreferences (getSettings exampleMemory)
   \<and> patterns (addPattern ''id-c'' (\<lambda>k. 40) exampleMemory examplePatternInput)
       = [newPattern ''id-c'' (\<lambda>k. 40) examplePatternInput, examplePattern ''b'' 30]
   \<and> map key (preferences (setPreference (\<lambda>k. 40) exampleMemory examplePreferenceInput))
       = [''theme'']
   \<and> length (patterns (addPattern ''id-c'' (\<lambda>k. 40) exampleMemory examplePatternInput)) = 2
   \<and> length (preferences (setPreference (\<lambda>k. 40) exampleMemory examplePreferenceInput)) = 1
   \<and> patterns (addPattern ''id-b'' (\<lambda>k. 50) exampleMemory existingPatternInput)
       = [examplePattern ''a'' 10,
          (examplePattern ''b'' 30)\<lparr>successCount := 2, lastUsed := 50\<rparr>]"
proof -
  have h1: "int (length (patterns exampleMemory)) \<le> maxPatterns (getSettings exampleMemory)"
    by (simp add: exampleMemory_def getSettings_def)
  have h2: "int (length (preferences exampleMemory)) \<le> maxPreferences (getSettings exampleMemory)"
    by (simp add: exampleMemory_def getSettings_def)
  have f1: "findIndex (\<lambda>x. domain x = in_domain examplePatternInput
                          \<and> taskType x = in_taskType examplePatternInput
                          \<and> pattern_description x = in_description examplePatternInput)
              (patterns exampleMemory) = None"
    by (simp add: exampleMemory_def examplePatternInput_def examplePattern_def)
  have f2: "findIndex (\<lambda>x. key x = in_key examplePreferenceInput) (preferences exampleMemory)
            = None"
    by (simp add: exampleMemory_def examplePreferenceInput_def)
  have f3: "findIndex (\<lambda>x. domain x = in_domain existingPatternInput
                          \<and> taskType x = in_taskType existingPatternInput
                          \<and> pattern_description x = in_description existingPatternInput)
              (patterns exampleMemory) = Some 1"
    by (simp add: exampleMemory_def existingPatternInput_def examplePattern_def)
  have g: "maxPatterns (getSettings exampleMemory) = 2"
    "maxPreferences (getSettings exampleMemory) = 1"
    "length (patterns exampleMemory) = 2" "length (preferences exampleMemory) = 1"
    "patterns exampleMemory = [examplePattern ''a'' 10, examplePattern ''b'' 30]"
    by (simp_all add: exampleMemory_def getSettings_def)
  have v1: "patterns (addPattern ''id-c'' (\<lambda>k. 40) exampleMemory examplePatternInput)
       = [newPattern ''id-c'' (\<lambda>k. 40) examplePatternInput, examplePattern ''b'' 30]"
    by code_simp
  have v2: "map key (preferences (setPreference (\<lambda>k. 40) exampleMemory examplePreferenceInput))
       = [''theme'']"
    by code_simp
  have e: "successCount (examplePattern ''b'' 30) + 1 = 2"
    by (simp add: examplePattern_def)
  show ?thesis
    using h1 h2 v1 v2 f1 f2 f3 g e
      memory_bounds_preserved [OF h1 h2, of "''id-c''" "\<lambda>k. 40" examplePatternInput
        examplePreferenceInput]
      memory_bounds_preserved [OF h1 h2, of "''id-b''" "\<lambda>k. 50" existingPatternInput
        examplePreferenceInput]
    by simp
qed

end
